theory Spec2Isabelle
  imports Complex_Main "HOL-Library.Word"
begin

chapter \<open>MinhOS tick exporter and trade bridge: a shallow embedding\<close>

text \<open>
  The repository holds four Sierra Chart studies: \<^verbatim>\<open>MinhOSBridgeStudy.cpp\<close> (called
  Bridge below), \<^verbatim>\<open>MinhOS_TickDataExporter_v2.cpp\<close>, and the two v3 variants
  \<^verbatim>\<open>MinhOS_TickDataExporter_v3_FIXED.cpp\<close> (FIXED) and
  \<^verbatim>\<open>MinhOS_TickDataExporter_v3_COMPLETE.cpp\<close> (COMPLETE). Functions that differ between
  the variants are embedded once per variant, with the variant as a suffix of the name.

  Conventions of the embedding:
  \<^item> a \<^verbatim>\<open>float\<close> or \<^verbatim>\<open>double\<close> is the real number it denotes (no NaN, no infinity), and
    comparisons are those of the source. Every \<^verbatim>\<open>float\<close> operation of the tick exporters
    is followed by \<open>r32\<close>, the rounding of IEEE 754 binary32 to nearest with ties to even,
    one rounding per operation as on x64; a \<^verbatim>\<open>float\<close> literal such as \<^verbatim>\<open>0.4f\<close> is \<open>r32 0.4\<close>.
    The \<^verbatim>\<open>double\<close> arithmetic of the Bridge's \<^verbatim>\<open>isValidData\<close> is exact;
  \<^item> \<^verbatim>\<open>uint16_t\<close>, \<^verbatim>\<open>uint32_t\<close> and \<^verbatim>\<open>uint64_t\<close> are words of that width, so that
    \<open>+\<close> wraps as in the source; \<^verbatim>\<open>size_t\<close> indices are natural numbers;
  \<^item> global variables and files are fields of an explicit state that every function
    takes and returns; calls to the message log are left out;
  \<^item> the host (Sierra Chart) is the record \<open>SCStudy\<close>, whose arrays are functions of the
    bar index, and the record \<open>Host\<close>, which gives the code each order entry call returns;
  \<^item> deleting a file that exists succeeds; whether a file opens for writing is a
    parameter of the function that writes it.
\<close>

section \<open>Numeric types\<close>

type_synonym u16 = "16 word"
type_synonym u32 = "32 word"
type_synonym u64 = "64 word"

definition rne :: "real \<Rightarrow> int" where
  \<comment> \<open>Rounding to the nearest integer, a tie to the even one.\<close>
  "rne x = (let f = \<lfloor>x\<rfloor>; d = x - of_int f
            in if d < 1 / 2 then f else if 1 / 2 < d then f + 1
               else if even f then f else f + 1)"

definition f32_exponent :: "real \<Rightarrow> int" where
  \<comment> \<open>The binary32 exponent of \<open>x\<close>: the \<open>e\<close> with \<open>2^e \<le> \<bar>x\<bar> < 2^(e+1)\<close>, kept within the
     range from \<open>-126\<close> (zero and the subnormal numbers) to \<open>127\<close>. It is \<open>-126\<close> plus the
     number of powers \<open>2^k\<close>, \<open>-125 \<le> k \<le> 127\<close>, that are at most \<open>\<bar>x\<bar>\<close>.\<close>
  "f32_exponent x = - 126 + int (length (filter (\<lambda>k. 2 powi k \<le> \<bar>x\<bar>) [- 125..127]))"

definition r32 :: "real \<Rightarrow> real" where
  \<comment> \<open>The binary32 number nearest to \<open>x\<close>, ties to even: \<open>x\<close> is rounded to a multiple of
     \<open>2^(e-23)\<close>, the spacing of the 24-bit significands at its exponent \<open>e\<close>. Beyond
     \<open>FLT_MAX\<close> the source gets an infinity, which the model does not have.\<close>
  "r32 x = of_int (rne (x / 2 powi (f32_exponent x - 23))) * 2 powi (f32_exponent x - 23)"

definition FLT_MAX :: real where
  "FLT_MAX = (2 ^ 24 - 1) * 2 ^ 104"

definition overflows :: "real \<Rightarrow> bool" where
  \<comment> \<open>The rounding of \<open>x\<close> is beyond \<open>FLT_MAX\<close>: the source gets an infinity.\<close>
  "overflows x \<longleftrightarrow> FLT_MAX < \<bar>r32 x\<bar>"

definition is_f32 :: "real \<Rightarrow> bool" where
  \<comment> \<open>\<open>x\<close> is a finite value of the type \<^verbatim>\<open>float\<close>.\<close>
  "is_f32 x \<longleftrightarrow> r32 x = x \<and> \<bar>x\<bar> \<le> FLT_MAX"

definition to_u32 :: "real \<Rightarrow> u32" where
  \<comment> \<open>The cast \<^verbatim>\<open>(uint32_t)x\<close> of a non-negative float: truncation. Beyond the range of
     the type the source is undefined; the model wraps.\<close>
  "to_u32 x = word_of_nat (nat \<lfloor>x\<rfloor>)"

section \<open>The host interface\<close>

record SCStudy =
  Symbol :: string
  Index :: int
  Close :: "int \<Rightarrow> real"
  Volume :: "int \<Rightarrow> real"
  High :: "int \<Rightarrow> real"
  Low :: "int \<Rightarrow> real"
  Open :: "int \<Rightarrow> real"
  Bid :: real
  Ask :: real
  TickSize :: real
  AllowEntryWithWorkingOrders :: bool
  SendOrdersToTradeService :: bool

section \<open>Ticks and the circular buffer (FIXED and COMPLETE, identical in both)\<close>

record TickTrade =
  timestamp_us :: u64
  price :: real
  size_tk :: u32
  side :: char
  bid :: real
  ask :: real
  bid_size :: u32
  ask_size :: u32
  sequence :: u16
  open_p :: real
  high :: real
  low :: real
  total_volume :: u32
  vwap :: real
  trade_count :: u32

definition zero_tick :: TickTrade where
  \<comment> \<open>An element of the vector after \<^verbatim>\<open>buffer.resize(maxSize)\<close>: value-initialised.\<close>
  "zero_tick = \<lparr>timestamp_us = 0, price = 0, size_tk = 0, side = CHR 0x00, bid = 0, ask = 0,
     bid_size = 0, ask_size = 0, sequence = 0, open_p = 0, high = 0, low = 0,
     total_volume = 0, vwap = 0, trade_count = 0\<rparr>"

record TickBuffer =
  buffer :: "TickTrade list"
  writeIndex :: nat
  maxSize :: nat
  sequenceCounter :: u16

definition TickBuffer_init :: "nat \<Rightarrow> TickBuffer" where
  \<comment> \<open>The constructor \<^verbatim>\<open>TickBuffer(size_t size = 10000)\<close>.\<close>
  "TickBuffer_init sz =
     \<lparr>buffer = replicate sz zero_tick, writeIndex = 0, maxSize = sz, sequenceCounter = 0\<rparr>"

definition AddTick :: "TickTrade \<Rightarrow> TickBuffer \<Rightarrow> TickBuffer" where
  \<comment> \<open>With \<open>maxSize = 0\<close> the source writes out of range and divides by zero; every
     statement below is about buffers with \<open>0 < maxSize\<close>.\<close>
  "AddTick tick b =
     b\<lparr>buffer := (buffer b)[writeIndex b := tick\<lparr>sequence := sequenceCounter b\<rparr>],
       sequenceCounter := sequenceCounter b + 1,
       writeIndex := (writeIndex b + 1) mod maxSize b\<rparr>"

definition recent_index :: "TickBuffer \<Rightarrow> nat \<Rightarrow> nat \<Rightarrow> nat" where
  \<comment> \<open>\<^verbatim>\<open>(writeIndex - actualCount + i + maxSize) % maxSize\<close>: the unsigned intermediate
     results wrap, the sum is the integer written here.\<close>
  "recent_index b actualCount i =
     nat ((int (writeIndex b) - int actualCount + int i + int (maxSize b)) mod int (maxSize b))"

function GetRecentTicks_loop ::
  "TickBuffer \<Rightarrow> nat \<Rightarrow> nat \<Rightarrow> TickTrade list \<Rightarrow> TickTrade list" where
  "GetRecentTicks_loop b actualCount i recent =
     (if i < actualCount then
        (let index = recent_index b actualCount i in
         GetRecentTicks_loop b actualCount (i + 1)
           (if timestamp_us (buffer b ! index) > 0 then recent @ [buffer b ! index]
            else recent))
      else recent)"
  by pat_completeness auto
termination
  by (relation "measure (\<lambda>(b, actualCount, i, recent). actualCount - i)") auto

declare GetRecentTicks_loop.simps [simp del]

definition GetRecentTicks :: "nat \<Rightarrow> TickBuffer \<Rightarrow> TickTrade list" where
  "GetRecentTicks count b =
     (let actualCount = (if count < maxSize b then count else maxSize b)
      in GetRecentTicks_loop b actualCount 0 [])"

definition pushes :: "TickTrade list \<Rightarrow> TickBuffer \<Rightarrow> TickBuffer" where
  \<comment> \<open>A sequence of calls of \<open>AddTick\<close>, first tick first.\<close>
  "pushes ts b = foldl (\<lambda>b t. AddTick t b) b ts"

definition stamp :: "TickTrade list \<Rightarrow> TickTrade list" where
  \<comment> \<open>What the buffer stores for a sequence of pushes: tick number \<open>j\<close> with the
     16-bit counter value \<open>j mod 65536\<close> as its sequence number.\<close>
  "stamp ts = map (\<lambda>j. (ts ! j)\<lparr>sequence := word_of_nat j\<rparr>) [0..<length ts]"

section \<open>Trade side\<close>

definition DetermineTradeSide_FIXED :: "real \<Rightarrow> real \<Rightarrow> real \<Rightarrow> real \<Rightarrow> char" where
  \<comment> \<open>When the sum of the quotes overflows, the midpoint is an infinity and no price is
     at least that.\<close>
  "DetermineTradeSide_FIXED pr b a lastPrice =
     (if b > 0 \<and> a > 0 then
        (if overflows (b + a) then CHR ''S''
         else
           (let midpoint = r32 (r32 (b + a) / 2) in
            if pr \<ge> midpoint then CHR ''B'' else CHR ''S''))
      else if lastPrice > 0 then
        (if pr > lastPrice then CHR ''B''
         else if pr < lastPrice then CHR ''S''
         else CHR ''U'')
      else CHR ''U'')"

definition epsilon :: real where
  \<comment> \<open>\<^verbatim>\<open>const float epsilon = 0.0001f\<close> of \<^verbatim>\<open>DetermineTradeSide\<close> in COMPLETE.\<close>
  "epsilon = r32 0.0001"

definition DetermineTradeSide_COMPLETE :: "real \<Rightarrow> real \<Rightarrow> real \<Rightarrow> real \<Rightarrow> char" where
  \<comment> \<open>No threshold overflows. Of the two distances at most one does, and its rounding
     compares with the other one as the infinity of the source does.\<close>
  "DetermineTradeSide_COMPLETE pr b a lastPrice =
     (if pr \<ge> r32 (a - epsilon) then CHR ''B''
      else if pr \<le> r32 (b + epsilon) then CHR ''S''
      else if lastPrice > 0 then
        (if pr > r32 (lastPrice + epsilon) then CHR ''B''
         else if pr < r32 (lastPrice - epsilon) then CHR ''S''
         else
           (let bidDistance = (if pr > b then r32 (pr - b) else r32 (b - pr));
                askDistance = (if pr > a then r32 (pr - a) else r32 (a - pr))
            in if bidDistance < askDistance then CHR ''S''
               else if askDistance < bidDistance then CHR ''B''
               else CHR ''U''))
      else CHR ''U'')"

datatype Side = Buy | Sell | Unknown

definition side_char :: "Side \<Rightarrow> char" where
  "side_char s = (case s of Buy \<Rightarrow> CHR ''B'' | Sell \<Rightarrow> CHR ''S'' | Unknown \<Rightarrow> CHR ''U'')"

definition spec_Classify :: "real \<Rightarrow> real \<Rightarrow> real \<Rightarrow> real \<Rightarrow> Side" where
  \<comment> \<open>The classifier in the words of the specification (section 4.3), for comparison
     with the two functions of the source; its midpoint is the exact one.\<close>
  "spec_Classify pr b a last_price =
     (if b > 0 \<and> a > 0 then
        (if pr \<ge> a then Buy
         else if pr \<le> b then Sell
         else if pr \<ge> (b + a) / 2 then Buy else Sell)
      else if last_price > 0 then
        (if pr > last_price then Buy
         else if pr < last_price then Sell
         else Unknown)
      else Unknown)"

section \<open>Tick export (FIXED and COMPLETE)\<close>

record Globals =
  g_TickBuffer :: TickBuffer
  g_LastPrice :: real
  g_LastUpdateTime :: u64
  g_CumulativeVolume :: u32
  g_TotalTrades :: u32

definition Globals_init :: Globals where
  \<comment> \<open>The static initialisers: \<^verbatim>\<open>g_TickBuffer(20000)\<close>, every counter zero.\<close>
  "Globals_init = \<lparr>g_TickBuffer = TickBuffer_init 20000, g_LastPrice = 0,
     g_LastUpdateTime = 0, g_CumulativeVolume = 0, g_TotalTrades = 0\<rparr>"

definition vwap_step :: "real \<times> u32 \<Rightarrow> TickTrade \<Rightarrow> real \<times> u32" where
  \<comment> \<open>The body of the loop over \<^verbatim>\<open>recentTicks\<close>: \<^verbatim>\<open>weightedSum\<close> is a float,
     \<^verbatim>\<open>totalVol\<close> a \<^verbatim>\<open>uint32_t\<close>. The size is converted to \<^verbatim>\<open>float\<close>, the product and the
     sum are rounded. A product or a sum beyond \<open>FLT_MAX\<close> is an infinity in the source and
     outside the model.\<close>
  "vwap_step acc t =
     (r32 (fst acc + r32 (price t * r32 (real (unat (size_tk t))))), snd acc + size_tk t)"

definition calc_vwap :: "real \<Rightarrow> TickTrade list \<Rightarrow> real" where
  \<comment> \<open>The block \<^verbatim>\<open>// Calculate enhanced VWAP\<close> of \<^verbatim>\<open>ExportTickData\<close>.\<close>
  "calc_vwap CurrentPrice recentTicks =
     (if recentTicks \<noteq> [] then
        (let acc = foldl vwap_step (0, 0) recentTicks;
             weightedSum = fst acc;
             totalVol = snd acc
         in if totalVol > 0 then r32 (weightedSum / r32 (real (unat totalVol)))
            else CurrentPrice)
      else CurrentPrice)"


definition bid_ask_data :: "SCStudy \<Rightarrow> u32 \<Rightarrow> real \<times> real \<times> u32 \<times> u32" where
  \<comment> \<open>The block \<^verbatim>\<open>// Enhanced bid/ask data\<close>: (BidPrice, AskPrice, BidSize, AskSize).\<close>
  "bid_ask_data sc ActualVolume =
     (if Bid sc > 0 \<and> Ask sc > 0 then
        (Bid sc, Ask sc,
         to_u32 (r32 (r32 (real (unat ActualVolume)) * r32 0.4)),
         to_u32 (r32 (r32 (real (unat ActualVolume)) * r32 0.6)))
      else
        (let spread0 = r32 (r32 (High sc (Index sc) - Low sc (Index sc)) * r32 0.1);
             spread = (if spread0 < TickSize sc then TickSize sc else spread0);
             CurrentPrice = Close sc (Index sc)
         in (r32 (CurrentPrice - spread), r32 (CurrentPrice + spread),
             ActualVolume div 2, ActualVolume div 2)))"

definition new_trade ::
  "(real \<Rightarrow> real \<Rightarrow> real \<Rightarrow> real \<Rightarrow> char) \<Rightarrow> TickTrade \<Rightarrow> u64 \<Rightarrow> SCStudy \<Rightarrow> u32
     \<Rightarrow> Globals \<Rightarrow> Globals \<times> TickTrade" where
  \<comment> \<open>The body of \<^verbatim>\<open>if (isNewTrade)\<close>, the same text in both variants but for the
     classifier it calls. \<open>uninit\<close> is the content of the local \<^verbatim>\<open>TickTrade tick\<close> before
     its fields are assigned, \<open>now\<close> the value of \<^verbatim>\<open>g_Timer.GetUnixMicroseconds()\<close>.
     The second component is the tick handed to \<^verbatim>\<open>ProcessIndividualTick\<close>.\<close>
  "new_trade DetermineTradeSide uninit now sc ActualVolume g =
     (let CurrentPrice = Close sc (Index sc);
          ba = bid_ask_data sc ActualVolume;
          BidPrice = fst ba; AskPrice = fst (snd ba);
          BidSize = fst (snd (snd ba)); AskSize = snd (snd (snd ba));
          TotalTrades = g_TotalTrades g + 1;
          tick = uninit\<lparr>timestamp_us := now, price := CurrentPrice, size_tk := ActualVolume,
                   bid := BidPrice, ask := AskPrice, bid_size := BidSize, ask_size := AskSize,
                   side := DetermineTradeSide CurrentPrice BidPrice AskPrice (g_LastPrice g),
                   open_p := Open sc (Index sc), high := High sc (Index sc),
                   low := Low sc (Index sc), total_volume := g_CumulativeVolume g,
                   trade_count := TotalTrades\<rparr>;
          recentTicks = GetRecentTicks 200 (g_TickBuffer g);
          tick' = tick\<lparr>vwap := calc_vwap CurrentPrice recentTicks\<rparr>
      in (g\<lparr>g_TickBuffer := AddTick tick' (g_TickBuffer g), g_TotalTrades := TotalTrades,
            g_LastPrice := CurrentPrice, g_LastUpdateTime := now\<rparr>, tick'))"

definition ExportTickData_FIXED ::
  "TickTrade \<Rightarrow> u64 \<Rightarrow> SCStudy \<Rightarrow> Globals \<Rightarrow> Globals \<times> TickTrade option" where
  \<comment> \<open>The result is the globals after the call and the tick that was emitted, if any.\<close>
  "ExportTickData_FIXED uninit now sc g =
     (let CurrentPrice = Close sc (Index sc);
          Vol = Volume sc (Index sc)
      in if Vol > 0 then
           (let ActualVolume = to_u32 Vol;
                g1 = g\<lparr>g_CumulativeVolume := g_CumulativeVolume g + ActualVolume\<rparr>;
                isNewTrade = (ActualVolume > 0 \<and>
                              (CurrentPrice \<noteq> g_LastPrice g1 \<or> g_LastPrice g1 = 0))
            in if isNewTrade then
                 (let r = new_trade DetermineTradeSide_FIXED uninit now sc ActualVolume g1
                  in (fst r, Some (snd r)))
               else (g1, None))
         else (g, None))"

definition EstimateVolume :: "SCStudy \<Rightarrow> real \<Rightarrow> real \<Rightarrow> u32" where
  \<comment> \<open>COMPLETE only. \<^verbatim>\<open>abs\<close> is taken as the absolute value of a float. With
     \<open>TickSize = 0\<close> the source divides by zero.\<close>
  "EstimateVolume sc currentPrice lastPrice =
     (if lastPrice = 0 then 1
      else
        (let priceChange = \<bar>r32 (currentPrice - lastPrice)\<bar>;
             tickSize = TickSize sc
         in if priceChange = 0 then 0
            else
              (let estimatedVol0 = to_u32 (r32 (r32 (priceChange / tickSize) * 10));
                   estimatedVol1 = (if estimatedVol0 < 1 then 1 else estimatedVol0)
               in if estimatedVol1 > 1000 then 1000 else estimatedVol1)))"

definition ActualVolume_COMPLETE :: "SCStudy \<Rightarrow> Globals \<Rightarrow> u32" where
  \<comment> \<open>The value of \<^verbatim>\<open>ActualVolume\<close> in COMPLETE: the host's volume, or the estimate.\<close>
  "ActualVolume_COMPLETE sc g =
     (if Volume sc (Index sc) > 0 then to_u32 (Volume sc (Index sc))
      else EstimateVolume sc (Close sc (Index sc)) (g_LastPrice g))"

definition ExportTickData_COMPLETE ::
  "TickTrade \<Rightarrow> u64 \<Rightarrow> SCStudy \<Rightarrow> Globals \<Rightarrow> Globals \<times> TickTrade option" where
  "ExportTickData_COMPLETE uninit now sc g =
     (let CurrentPrice = Close sc (Index sc);
          Vol = Volume sc (Index sc);
          ActualVolume = ActualVolume_COMPLETE sc g;
          g1 = (if Vol > 0 then g\<lparr>g_CumulativeVolume := g_CumulativeVolume g + ActualVolume\<rparr>
                else if ActualVolume > 0
                then g\<lparr>g_CumulativeVolume := g_CumulativeVolume g + ActualVolume\<rparr>
                else g);
          isNewTrade = (if CurrentPrice \<noteq> g_LastPrice g1 then True
                        else if ActualVolume > 0 then True
                        else if g_LastPrice g1 = 0 then True
                        else False)
      in if isNewTrade then
           (let r = new_trade DetermineTradeSide_COMPLETE uninit now sc ActualVolume g1
            in (fst r, Some (snd r)))
         else (g1, None))"

section \<open>Test data and the invariant of the circular buffer\<close>

definition buf_inv :: "nat \<Rightarrow> TickTrade list \<Rightarrow> TickBuffer \<Rightarrow> bool" where
  \<comment> \<open>The state of a buffer of capacity \<open>cap\<close> after the pushes \<open>ts\<close>: push number \<open>j\<close>
     sits in slot \<open>j mod cap\<close> as long as it is among the last \<open>cap\<close> pushes, and the
     slots never written hold the initial element.\<close>
  "buf_inv cap ts b \<longleftrightarrow>
     maxSize b = cap \<and> length (buffer b) = cap \<and> writeIndex b = length ts mod cap \<and>
     sequenceCounter b = word_of_nat (length ts) \<and>
     (\<forall>j < length ts. length ts - j \<le> cap \<longrightarrow> buffer b ! (j mod cap) = stamp ts ! j) \<and>
     (\<forall>i < cap. length ts \<le> i \<longrightarrow> buffer b ! i = zero_tick)"

definition tick1 :: TickTrade where
  "tick1 = zero_tick\<lparr>timestamp_us := 1, price := 100, size_tk := 5\<rparr>"

definition wrap_ticks :: "TickTrade list" where
  \<comment> \<open>One tick more than the 16-bit sequence counter can number.\<close>
  "wrap_ticks = replicate 65537 tick1"

definition sc_demo :: "real \<Rightarrow> real \<Rightarrow> SCStudy" where
  \<comment> \<open>A chart whose current bar closes at \<open>p\<close> with volume \<open>v\<close>, quoted a tick either side.\<close>
  "sc_demo p v = \<lparr>Symbol = ''NQ'', Index = 1, Close = (\<lambda>_. p), Volume = (\<lambda>_. v),
     High = (\<lambda>_. p + 1), Low = (\<lambda>_. p - 1), Open = (\<lambda>_. p), Bid = p - 0.25, Ask = p + 0.25,
     TickSize = 0.25, AllowEntryWithWorkingOrders = True, SendOrdersToTradeService = True\<rparr>"

definition g_demo :: "real \<Rightarrow> Globals" where
  \<comment> \<open>The globals of a study whose last emitted tick had the price \<open>lp\<close>.\<close>
  "g_demo lp = Globals_init\<lparr>g_LastPrice := lp\<rparr>"

definition q_bid :: real where
  \<comment> \<open>The binary32 number nearest to 2000.1.\<close>
  "q_bid = 16384819 / 8192"

definition q_mid :: real where
  \<comment> \<open>The binary32 number nearest to 2000.2.\<close>
  "q_mid = 16385638 / 8192"

definition q_ask :: real where
  \<comment> \<open>The binary32 number nearest to 2000.3.\<close>
  "q_ask = 16386458 / 8192"


definition tick_f :: TickTrade where
  \<comment> \<open>A tick of 7 contracts at the binary32 number nearest to 100.03.\<close>
  "tick_f = zero_tick\<lparr>timestamp_us := 1, price := 13111132 / 131072, size_tk := 7\<rparr>"


section \<open>Strings of the C++ library\<close>

datatype exn = invalid_argument | out_of_range

definition dq :: char where
  \<comment> \<open>The double quote.\<close>
  "dq = CHR 0x22"

fun find_sub :: "string \<Rightarrow> string \<Rightarrow> nat option" where
  "find_sub pat [] = (if pat = [] then Some 0 else None)"
| "find_sub pat (c # cs) =
     (if take (length pat) (c # cs) = pat then Some 0 else map_option Suc (find_sub pat cs))"

definition find :: "string \<Rightarrow> string \<Rightarrow> nat \<Rightarrow> nat option" where
  \<comment> \<open>\<^verbatim>\<open>s.find(pat, pos)\<close>: the first position from \<open>pos\<close> on at which \<open>pat\<close> starts;
     \<^verbatim>\<open>npos\<close> is \<open>None\<close>.\<close>
  "find s pat pos =
     (if pos > length s then None else map_option (\<lambda>i. pos + i) (find_sub pat (drop pos s)))"

fun find_first_of_sub :: "string \<Rightarrow> string \<Rightarrow> nat option" where
  "find_first_of_sub chars [] = None"
| "find_first_of_sub chars (c # cs) =
     (if c \<in> set chars then Some 0 else map_option Suc (find_first_of_sub chars cs))"

definition find_first_of :: "string \<Rightarrow> string \<Rightarrow> nat \<Rightarrow> nat option" where
  "find_first_of s chars pos =
     (if pos > length s then None
      else map_option (\<lambda>i. pos + i) (find_first_of_sub chars (drop pos s)))"

definition substr :: "string \<Rightarrow> nat \<Rightarrow> nat \<Rightarrow> exn + string" where
  \<comment> \<open>\<^verbatim>\<open>s.substr(pos, n)\<close> throws \<^verbatim>\<open>std::out_of_range\<close> when \<open>pos\<close> is beyond the end.\<close>
  "substr s pos n = (if pos > length s then Inl out_of_range else Inr (take n (drop pos s)))"

definition isspace :: "char \<Rightarrow> bool" where
  "isspace c = (c \<in> {CHR 0x20, CHR 0x09, CHR 0x0A, CHR 0x0B, CHR 0x0C, CHR 0x0D})"

definition isdigit :: "char \<Rightarrow> bool" where
  "isdigit c = (c \<in> set ''0123456789'')"

definition digit_val :: "char \<Rightarrow> int" where
  "digit_val c = of_char c - 48"

definition dec_value :: "string \<Rightarrow> int" where
  "dec_value ds = foldl (\<lambda>v c. 10 * v + digit_val c) 0 ds"

definition int_prefix :: "string \<Rightarrow> int option" where
  \<comment> \<open>What \<^verbatim>\<open>strtol\<close> in base 10 converts: leading white space, an optional sign and the
     longest run of digits; \<open>None\<close> when there is no digit.\<close>
  "int_prefix str =
     (let s1 = dropWhile isspace str;
          neg = (s1 \<noteq> [] \<and> hd s1 = CHR ''-'');
          s2 = (if s1 \<noteq> [] \<and> (hd s1 = CHR ''-'' \<or> hd s1 = CHR ''+'') then tl s1 else s1);
          ds = takeWhile isdigit s2
      in if ds = [] then None else Some (if neg then - dec_value ds else dec_value ds))"

definition stoi :: "string \<Rightarrow> exn + int" where
  \<comment> \<open>\<^verbatim>\<open>std::stoi\<close>: \<^verbatim>\<open>invalid_argument\<close> without a digit, \<^verbatim>\<open>out_of_range\<close> beyond a 32-bit
     \<^verbatim>\<open>int\<close>; characters after the digits are ignored.\<close>
  "stoi str =
     (case int_prefix str of
        None \<Rightarrow> Inl invalid_argument
      | Some v \<Rightarrow> if v < - 2147483648 \<or> 2147483647 < v then Inl out_of_range else Inr v)"

definition atoi :: "string \<Rightarrow> int" where
  \<comment> \<open>\<^verbatim>\<open>atoi\<close> never throws and returns 0 without a digit. Beyond a 32-bit \<^verbatim>\<open>int\<close> the C
     standard leaves the result open; the model takes the clamped value of the Microsoft
     runtime the studies are compiled for.\<close>
  "atoi str =
     (case int_prefix str of
        None \<Rightarrow> 0
      | Some v \<Rightarrow> if v < - 2147483648 then - 2147483648
                  else if 2147483647 < v then 2147483647 else v)"

definition catch_all :: "exn + 'a \<Rightarrow> 'a \<Rightarrow> exn + 'a" where
  \<comment> \<open>\<^verbatim>\<open>try { return e; } catch (...) { return d; }\<close>\<close>
  "catch_all r d = (case r of Inl _ \<Rightarrow> Inr d | Inr v \<Rightarrow> Inr v)"

definition bind_exn :: "exn + 'a \<Rightarrow> ('a \<Rightarrow> exn + 'b) \<Rightarrow> exn + 'b" where
  \<comment> \<open>Sequencing: an exception of the first computation leaves the second out.\<close>
  "bind_exn r f = (case r of Inl e \<Rightarrow> Inl e | Inr v \<Rightarrow> f v)"

definition toupper :: "char \<Rightarrow> char" where
  "toupper c =
     (case map_of (zip ''abcdefghijklmnopqrstuvwxyz'' ''ABCDEFGHIJKLMNOPQRSTUVWXYZ'') c of
        None \<Rightarrow> c | Some u \<Rightarrow> u)"

definition CompareNoCase :: "string \<Rightarrow> string \<Rightarrow> int" where
  \<comment> \<open>\<^verbatim>\<open>SCString::CompareNoCase\<close>: 0 when the strings are equal up to the case of
     letters. The source only compares the result with 0; its sign is not modelled.\<close>
  "CompareNoCase a b = (if map toupper a = map toupper b then 0 else 1)"

fun dec :: "nat \<Rightarrow> string" where
  "dec n = (if n < 10 then [char_of (48 + n)] else dec (n div 10) @ [char_of (48 + n mod 10)])"

declare dec.simps [simp del]

definition dec_int :: "int \<Rightarrow> string" where
  \<comment> \<open>The conversion \<^verbatim>\<open>%d\<close>.\<close>
  "dec_int i = (if i < 0 then CHR ''-'' # dec (nat (- i)) else dec (nat i))"

section \<open>The JSON helper of FIXED and COMPLETE\<close>

definition ExtractString :: "string \<Rightarrow> string \<Rightarrow> exn + string" where
  "ExtractString json key =
     (let searchKey = [dq] @ key @ [dq] @ '':'' @ [dq] in
      case find json searchKey 0 of
        None \<Rightarrow> Inr ''''
      | Some pos \<Rightarrow>
          (let start = pos + length searchKey in
           case find json [dq] start of
             None \<Rightarrow> Inr ''''
           | Some endp \<Rightarrow> substr json start (endp - start)))"

definition ExtractInt :: "string \<Rightarrow> string \<Rightarrow> exn + int" where
  "ExtractInt json key =
     (let searchKey = [dq] @ key @ [dq] @ '':'' in
      case find json searchKey 0 of
        None \<Rightarrow> Inr 0
      | Some pos \<Rightarrow>
          (let start = pos + length searchKey in
           case find_first_of json '',}'' start of
             None \<Rightarrow> Inr 0
           | Some endp \<Rightarrow> catch_all (bind_exn (substr json start (endp - start)) stoi) 0))"

definition ExtractFloat :: "(string \<Rightarrow> exn + real) \<Rightarrow> string \<Rightarrow> string \<Rightarrow> exn + real" where
  \<comment> \<open>\<open>stof\<close> stands for \<^verbatim>\<open>std::stof\<close>, which is not modelled: any function that returns a
     value or throws.\<close>
  "ExtractFloat stof json key =
     (let searchKey = [dq] @ key @ [dq] @ '':'' in
      case find json searchKey 0 of
        None \<Rightarrow> Inr 0
      | Some pos \<Rightarrow>
          (let start = pos + length searchKey in
           case find_first_of json '',}'' start of
             None \<Rightarrow> Inr 0
           | Some endp \<Rightarrow> catch_all (bind_exn (substr json start (endp - start)) stof) 0))"

section \<open>Orders\<close>

datatype OrderType = SCT_ORDERTYPE_MARKET | SCT_ORDERTYPE_LIMIT | SCT_ORDERTYPE_STOP | OrderType_unset

datatype BuySell = BSE_BUY | BSE_SELL | BuySell_unset

datatype TimeInForce = SCT_TIF_DAY | TimeInForce_unset

record s_SCNewOrder =
  OrderQuantity :: int
  OrderType :: OrderType
  Price1 :: real
  BuySell :: BuySell
  TimeInForce :: TimeInForce
  TextTag :: string

definition new_order :: s_SCNewOrder where
  \<comment> \<open>An order before the source assigns its fields.\<close>
  "new_order = \<lparr>OrderQuantity = 0, OrderType = OrderType_unset, Price1 = 0, BuySell = BuySell_unset,
     TimeInForce = TimeInForce_unset, TextTag = ''''\<rparr>"

datatype host_call =
  BuyEntry s_SCNewOrder | SellEntry s_SCNewOrder | SubmitNewOrder s_SCNewOrder

record Host =
  \<comment> \<open>The code the host returns for each order entry call: an order identifier when
     positive.\<close>
  order_result :: "host_call \<Rightarrow> int"

section \<open>Bridge: validation of market data\<close>

definition MIN_VALID_PRICE :: real where "MIN_VALID_PRICE = 0.01"

definition MAX_PRICE_CHANGE_PERCENT :: real where "MAX_PRICE_CHANGE_PERCENT = 50"

definition MAX_POSITION_SIZE :: int where "MAX_POSITION_SIZE = 10"

definition isValidData :: "SCStudy \<Rightarrow> bool" where
  "isValidData sc =
     (let pr = Close sc (Index sc);
          volume = Volume sc (Index sc)
      in if pr \<le> 0 \<or> pr < MIN_VALID_PRICE then False
         else if volume < 0 then False
         else if High sc (Index sc) < Low sc (Index sc) then False
         else if pr < Low sc (Index sc) \<or> pr > High sc (Index sc) then False
         else if Index sc > 0 then
           (let prevPrice = Close sc (Index sc - 1) in
            if prevPrice > 0 then
              (let changePercent = \<bar>(pr - prevPrice) / prevPrice * 100\<bar> in
               if changePercent > MAX_PRICE_CHANGE_PERCENT then False else True)
            else True)
         else True)"

definition spec_InvalidSnapshot :: "real \<Rightarrow> SCStudy \<Rightarrow> bool" where
  \<comment> \<open>The rejection rule in the words of the specification (section 4.1), with the
     threshold in percent as a parameter. The change from bar to bar is taken relative to
     the previous close and counts only when there is a previous bar with a positive
     close.\<close>
  "spec_InvalidSnapshot threshold sc \<longleftrightarrow>
     Close sc (Index sc) \<le> 0
     \<or> High sc (Index sc) < Low sc (Index sc)
     \<or> Close sc (Index sc) < Low sc (Index sc) \<or> High sc (Index sc) < Close sc (Index sc)
     \<or> (0 < Index sc \<and> 0 < Close sc (Index sc - 1)
        \<and> threshold < \<bar>(Close sc (Index sc) - Close sc (Index sc - 1)) / Close sc (Index sc - 1) * 100\<bar>)"

record StudyState =
  initialized :: bool
  lastUpdate :: u32
  lastTradeCheck :: u32
  packetsWritten :: int
  validationErrors :: int
  tradesExecuted :: int
  startTime :: u32
  tradingEnabled :: bool

record MarketData =
  \<comment> \<open>The fields of the JSON object of \<^verbatim>\<open>createBridgeMarketDataJSON\<close>, but for the
     time stamp.\<close>
  md_symbol :: string
  md_price :: real
  md_volume :: int
  md_bid :: real
  md_ask :: real

definition createBridgeMarketDataJSON :: "SCStudy \<Rightarrow> MarketData" where
  "createBridgeMarketDataJSON sc =
     \<lparr>md_symbol = Symbol sc, md_price = Close sc (Index sc),
      md_volume = (if Volume sc (Index sc) < 0 then - \<lfloor>- Volume sc (Index sc)\<rfloor>
                   else \<lfloor>Volume sc (Index sc)\<rfloor>),
      md_bid = (if Bid sc > 0 \<and> Ask sc > 0 then Bid sc else Close sc (Index sc)),
      md_ask = (if Bid sc > 0 \<and> Ask sc > 0 then Ask sc else Close sc (Index sc))\<rparr>"

record FileOps =
  \<comment> \<open>What the file system does during one call of \<^verbatim>\<open>writeMarketData\<close>: whether the
     market data file opens for writing, whether the temporary file does, whether the old
     file is deleted and whether the temporary file is moved in its place.\<close>
  direct_open :: bool
  temp_open :: bool
  delete_old :: bool
  move_temp :: bool

definition writeMarketData ::
  "FileOps \<Rightarrow> MarketData \<Rightarrow> MarketData option \<Rightarrow> bool \<times> MarketData option" where
  \<comment> \<open>The result is the value returned and the content of the market data file
     afterwards (\<open>None\<close>: no file).\<close>
  "writeMarketData ops jsonData mdf =
     (if \<not> direct_open ops then
        (if \<not> temp_open ops then (False, mdf)
         else
           (let mdf1 = (if delete_old ops then None else mdf) in
            if move_temp ops then (True, Some jsonData) else (False, mdf1)))
      else (True, Some jsonData))"

definition send_market_data ::
  "FileOps \<Rightarrow> u32 \<Rightarrow> int \<Rightarrow> SCStudy \<Rightarrow> StudyState \<Rightarrow> MarketData option
     \<Rightarrow> (StudyState \<times> MarketData option) \<times> bool" where
  \<comment> \<open>The block \<^verbatim>\<open>// Send market data\<close> of \<^verbatim>\<open>scsf_MinhOSBridgeStudy\<close>. The last
     component tells whether the study function returned in the block.\<close>
  "send_market_data ops currentTime updateInterval sc st mdf =
     (if currentTime - lastUpdate st \<ge> word_of_int updateInterval then
        (let st1 = st\<lparr>lastUpdate := currentTime\<rparr> in
         if \<not> isValidData sc then
           ((st1\<lparr>validationErrors := validationErrors st1 + 1\<rparr>, mdf), True)
         else
           (let w = writeMarketData ops (createBridgeMarketDataJSON sc) mdf in
            if fst w then ((st1\<lparr>packetsWritten := packetsWritten st1 + 1\<rparr>, snd w), False)
            else ((st1, snd w), False)))
      else ((st, mdf), False))"

definition sc_bar :: "real \<Rightarrow> real \<Rightarrow> real \<Rightarrow> real \<Rightarrow> real \<Rightarrow> SCStudy" where
  \<comment> \<open>A chart at its second bar: previous close \<open>prev\<close>, current close \<open>p\<close>, volume
     \<open>v\<close>, low \<open>lo\<close> and high \<open>hi\<close>.\<close>
  "sc_bar prev p v lo hi = \<lparr>Symbol = ''NQ'', Index = 1, Close = (\<lambda>i. if i = 1 then p else prev),
     Volume = (\<lambda>_. v), High = (\<lambda>_. hi), Low = (\<lambda>_. lo), Open = (\<lambda>_. p), Bid = 100, Ask = 101,
     TickSize = 0.25, AllowEntryWithWorkingOrders = True, SendOrdersToTradeService = True\<rparr>"

definition direct_write :: FileOps where
  \<comment> \<open>A file system on which every operation succeeds.\<close>
  "direct_write = \<lparr>direct_open = True, temp_open = True, delete_old = True, move_temp = True\<rparr>"

definition st_demo :: StudyState where
  "st_demo = \<lparr>initialized = True, lastUpdate = 0, lastTradeCheck = 0, packetsWritten = 3,
     validationErrors = 0, tradesExecuted = 0, startTime = 0, tradingEnabled = True\<rparr>"

section \<open>Bridge: trade commands\<close>

record TradeCommand =
  command_id :: string
  action :: string
  symbol :: string
  quantity :: int
  cmd_price :: real
  order_type :: string

definition quoted_field :: "string \<Rightarrow> string \<Rightarrow> string \<Rightarrow> exn + string" where
  \<comment> \<open>The block \<^verbatim>\<open>parseTradeCommand\<close> repeats for \<^verbatim>\<open>command_id\<close>, \<^verbatim>\<open>action\<close>,
     \<^verbatim>\<open>symbol\<close> and \<^verbatim>\<open>order_type\<close>; \<open>key\<close> is the quoted name with its colon, whose length
     is the offset the source adds, \<open>dflt\<close> the value the field has before. When the
     opening quote is not found, \<^verbatim>\<open>start + 1\<close> wraps around to 0.\<close>
  "quoted_field jsonStr key dflt =
     (case find jsonStr key 0 of
        None \<Rightarrow> Inr dflt
      | Some pos \<Rightarrow>
          (let start = find jsonStr [dq] (pos + length key);
               endp = find jsonStr [dq] (case start of None \<Rightarrow> 0 | Some st \<Rightarrow> st + 1)
           in case start of
                None \<Rightarrow> Inr dflt
              | Some st \<Rightarrow>
                  (case endp of
                     None \<Rightarrow> Inr dflt
                   | Some e \<Rightarrow> substr jsonStr (st + 1) (e - st - 1))))"

definition number_text :: "string \<Rightarrow> string \<Rightarrow> string option" where
  \<comment> \<open>The text handed to \<^verbatim>\<open>atoi\<close> and \<^verbatim>\<open>atof\<close>: what follows the key, after the blanks
     and colons the \<^verbatim>\<open>while\<close> loop steps over.\<close>
  "number_text jsonStr key =
     (case find jsonStr key 0 of
        None \<Rightarrow> None
      | Some pos \<Rightarrow>
          Some (dropWhile (\<lambda>c. c = CHR '' '' \<or> c = CHR '':'') (drop (pos + length key) jsonStr)))"

definition parseTradeCommand :: "(string \<Rightarrow> real) \<Rightarrow> string \<Rightarrow> exn + (bool \<times> TradeCommand)" where
  \<comment> \<open>\<open>atof\<close> stands for the library function, which is not modelled. The result is the
     value returned and the command as the function leaves it.\<close>
  "parseTradeCommand atof jsonStr =
     bind_exn (quoted_field jsonStr ([dq] @ ''command_id'' @ [dq] @ '':'') '''') (\<lambda>cid.
     bind_exn (quoted_field jsonStr ([dq] @ ''action'' @ [dq] @ '':'') '''') (\<lambda>act.
     bind_exn (quoted_field jsonStr ([dq] @ ''symbol'' @ [dq] @ '':'') '''') (\<lambda>smb.
     (let qty = (case number_text jsonStr ([dq] @ ''quantity'' @ [dq] @ '':'') of
                   None \<Rightarrow> 0 | Some txt \<Rightarrow> atoi txt);
          prc = (case number_text jsonStr ([dq] @ ''price'' @ [dq] @ '':'') of
                   None \<Rightarrow> 0 | Some txt \<Rightarrow> atof txt)
      in bind_exn (quoted_field jsonStr ([dq] @ ''order_type'' @ [dq] @ '':'') ''MARKET'') (\<lambda>ot.
         Inr (cid \<noteq> [] \<and> act \<noteq> [] \<and> qty > 0,
              \<lparr>command_id = cid, action = act, symbol = smb, quantity = qty,
               cmd_price = prc, order_type = ot\<rparr>))))))"

record TradeResponse =
  \<comment> \<open>The fields of the JSON object of \<^verbatim>\<open>createTradeResponse\<close>, but for the time stamp;
     \<open>None\<close> is \<^verbatim>\<open>null\<close>.\<close>
  r_command_id :: string
  r_status :: string
  r_message :: string
  r_fill_price :: "real option"

definition createTradeResponse :: "string \<Rightarrow> string \<Rightarrow> string \<Rightarrow> real \<Rightarrow> TradeResponse" where
  "createTradeResponse cid status message fill_price =
     \<lparr>r_command_id = cid, r_status = status, r_message = message,
      r_fill_price = (if fill_price > 0 then Some fill_price else None)\<rparr>"

definition executeTrade ::
  "Host \<Rightarrow> SCStudy \<Rightarrow> TradeCommand \<Rightarrow> real \<Rightarrow> int \<times> real \<times> host_call list" where
  \<comment> \<open>The result is the value returned, the value left in \<^verbatim>\<open>fillPrice\<close> and the calls
     made to the host.\<close>
  "executeTrade host sc cmd fillPrice =
     (if \<not> AllowEntryWithWorkingOrders sc then (0, fillPrice, [])
      else if \<not> SendOrdersToTradeService sc then (0, fillPrice, [])
      else if symbol cmd \<noteq> [] \<and> CompareNoCase (Symbol sc) (symbol cmd) \<noteq> 0 then (0, fillPrice, [])
      else if quantity cmd \<le> 0 then (0, fillPrice, [])
      else if quantity cmd > MAX_POSITION_SIZE then (0, fillPrice, [])
      else if Ask sc \<le> 0 \<or> Bid sc \<le> 0 then (0, fillPrice, [])
      else
        (let order1 = new_order\<lparr>OrderQuantity := quantity cmd\<rparr>;
             limit = (order_type cmd = ''LIMIT'' \<and> cmd_price cmd > 0);
             order2 = (if limit
                       then order1\<lparr>OrderType := SCT_ORDERTYPE_LIMIT, Price1 := cmd_price cmd\<rparr>
                       else order1\<lparr>OrderType := SCT_ORDERTYPE_MARKET\<rparr>);
             fillPrice2 = (if limit then cmd_price cmd
                           else if action cmd = ''BUY'' then Ask sc else Bid sc);
             order3 = order2\<lparr>TimeInForce := SCT_TIF_DAY, OrderType := SCT_ORDERTYPE_MARKET\<rparr>
         in if action cmd = ''BUY'' then
              (order_result host (BuyEntry order3), Ask sc, [BuyEntry order3])
            else if action cmd = ''SELL'' then
              (order_result host (SellEntry order3), Bid sc, [SellEntry order3])
            else (0, fillPrice2, [])))"

record BridgeFiles =
  \<comment> \<open>The command file (absent: \<open>None\<close>), every response written to the response file
     (the last one is its content), and every content read from the command file.\<close>
  trade_commands_file :: "string option"
  trade_responses :: "TradeResponse list"
  commands_read :: "string list"

definition write_response :: "bool \<Rightarrow> TradeResponse \<Rightarrow> BridgeFiles \<Rightarrow> BridgeFiles" where
  \<comment> \<open>\<open>resp_ok\<close>: whether the response file can be opened for writing.\<close>
  "write_response resp_ok response fs =
     (if resp_ok then fs\<lparr>trade_responses := trade_responses fs @ [response]\<rparr> else fs)"

definition processTradeCommands ::
  "(string \<Rightarrow> real) \<Rightarrow> Host \<Rightarrow> bool \<Rightarrow> SCStudy \<Rightarrow> BridgeFiles
     \<Rightarrow> bool \<times> BridgeFiles \<times> host_call list" where
  \<comment> \<open>\<^verbatim>\<open>std::getline\<close> drops the line ends of the file. An exception in the body is
     caught and makes the function return \<^verbatim>\<open>false\<close>.\<close>
  "processTradeCommands atof host resp_ok sc fs =
     (case trade_commands_file fs of
        None \<Rightarrow> (False, fs, [])
      | Some ftext \<Rightarrow>
          (let content = filter (\<lambda>c. c \<noteq> CHR 0x0A) ftext;
               fs0 = fs\<lparr>commands_read := commands_read fs @ [content]\<rparr>
           in if content \<noteq> [] then
                (let fs1 = fs0\<lparr>trade_commands_file := None\<rparr> in
                 case parseTradeCommand atof content of
                   Inl e \<Rightarrow> (False, fs1, [])
                 | Inr (ok, cmd) \<Rightarrow>
                     if ok then
                       (let r = executeTrade host sc cmd 0;
                            orderId = fst r; fillPrice = fst (snd r);
                            response =
                              (if orderId > 0
                               then createTradeResponse (command_id cmd) ''FILLED''
                                      ''Trade executed successfully'' fillPrice
                               else createTradeResponse (command_id cmd) ''REJECTED''
                                      ''Trade execution failed'' 0)
                        in (True, write_response resp_ok response fs1, snd (snd r)))
                     else
                       (True,
                        write_response resp_ok
                          (createTradeResponse ''unknown'' ''REJECTED'' ''Invalid command format'' 0)
                          fs1,
                        []))
              else (True, fs0, [])))"

section \<open>FIXED: trade commands\<close>

record OrderResponse =
  \<comment> \<open>A file \<^verbatim>\<open>trade_response_<order_id>.json\<close>, but for its time stamps and counters.\<close>
  o_order_id :: string
  o_status :: string
  o_message :: string

record ExporterFiles =
  \<comment> \<open>The command file (absent: \<open>None\<close>), the response files in the order they were
     written, and every content read from the command file.\<close>
  command_file :: "string option"
  response_files :: "OrderResponse list"
  contents_read :: "string list"

definition WriteTradeResponse ::
  "bool \<Rightarrow> string \<Rightarrow> string \<Rightarrow> string \<Rightarrow> ExporterFiles \<Rightarrow> ExporterFiles" where
  "WriteTradeResponse resp_ok orderId status message fs =
     (if resp_ok
      then fs\<lparr>response_files := response_files fs @
                 [\<lparr>o_order_id = orderId, o_status = status, o_message = message\<rparr>]\<rparr>
      else fs)"

definition ExecuteTrade_FIXED ::
  "Host \<Rightarrow> bool \<Rightarrow> u64 \<Rightarrow> string \<Rightarrow> string \<Rightarrow> int \<Rightarrow> real \<Rightarrow> string \<Rightarrow> ExporterFiles
     \<Rightarrow> ExporterFiles \<times> host_call list" where
  \<comment> \<open>\<open>now\<close> is the value of \<^verbatim>\<open>g_Timer.GetUnixMicroseconds()\<close> the order identifier is
     made of.\<close>
  "ExecuteTrade_FIXED host resp_ok now smb sd qty prc orderType fs =
     (let orderId = ''MINH_'' @ dec (unat now) in
      if qty \<le> 0 then
        (WriteTradeResponse resp_ok orderId ''REJECTED'' ''Invalid quantity'' fs, [])
      else if prc \<le> 0 \<and> CompareNoCase orderType ''MARKET'' \<noteq> 0 then
        (WriteTradeResponse resp_ok orderId ''REJECTED'' ''Invalid price for limit order'' fs, [])
      else
        (let order1 = new_order\<lparr>OrderQuantity := qty, OrderType := SCT_ORDERTYPE_MARKET\<rparr>;
             order2 = (if CompareNoCase orderType ''LIMIT'' = 0
                       then order1\<lparr>OrderType := SCT_ORDERTYPE_LIMIT, Price1 := prc\<rparr>
                       else order1)
         in if CompareNoCase sd ''BUY'' \<noteq> 0 \<and> CompareNoCase sd ''SELL'' \<noteq> 0 then
              (WriteTradeResponse resp_ok orderId ''REJECTED''
                 ''Invalid side (must be BUY or SELL)'' fs, [])
            else
              (let order3 = order2\<lparr>BuySell := (if CompareNoCase sd ''BUY'' = 0 then BSE_BUY
                                                else BSE_SELL)\<rparr>;
                   order4 = order3\<lparr>TimeInForce := SCT_TIF_DAY, TextTag := orderId\<rparr>;
                   result = order_result host (SubmitNewOrder order4)
               in if result > 0 then
                    (WriteTradeResponse resp_ok orderId ''SUBMITTED''
                       ''Order submitted successfully'' fs, [SubmitNewOrder order4])
                  else
                    (WriteTradeResponse resp_ok orderId ''FAILED''
                       (''Order submission failed with code: '' @ dec_int result) fs,
                     [SubmitNewOrder order4]))))"

definition ProcessTradeCommands_FIXED ::
  "(string \<Rightarrow> exn + real) \<Rightarrow> Host \<Rightarrow> bool \<Rightarrow> u64 \<Rightarrow> ExporterFiles
     \<Rightarrow> exn + (ExporterFiles \<times> host_call list)" where
  \<comment> \<open>Nothing in the function catches an exception of the calls it makes, so the result
     is an exception or the state after the call.\<close>
  "ProcessTradeCommands_FIXED stof host resp_ok now fs =
     (case command_file fs of
        None \<Rightarrow> Inr (fs, [])
      | Some content \<Rightarrow>
          (let fs0 = fs\<lparr>contents_read := contents_read fs @ [content]\<rparr> in
           if content = [] then Inr (fs0, [])
           else
             bind_exn (ExtractString content ''symbol'') (\<lambda>smb.
             bind_exn (ExtractString content ''side'') (\<lambda>sd.
             bind_exn (ExtractString content ''order_type'') (\<lambda>orderType.
             bind_exn (ExtractInt content ''quantity'') (\<lambda>qty.
             bind_exn (ExtractFloat stof content ''price'') (\<lambda>prc.
               if smb \<noteq> [] \<and> sd \<noteq> [] \<and> qty > 0 then
                 (let r = ExecuteTrade_FIXED host resp_ok now smb sd qty prc orderType fs0
                  in Inr ((fst r)\<lparr>command_file := None\<rparr>, snd r))
               else Inr (fs0, []))))))))"

section \<open>Test data for the trade commands\<close>

definition host_ok :: Host where
  \<comment> \<open>A host that accepts every order and returns the identifier 42.\<close>
  "host_ok = \<lparr>order_result = (\<lambda>_. 42)\<rparr>"

definition stof_zero :: "string \<Rightarrow> exn + real" where
  "stof_zero s = Inr 0"

definition atof_zero :: "string \<Rightarrow> real" where
  "atof_zero s = 0"

definition no_files :: ExporterFiles where
  "no_files = \<lparr>command_file = None, response_files = [], contents_read = []\<rparr>"

definition no_bridge_files :: BridgeFiles where
  "no_bridge_files = \<lparr>trade_commands_file = None, trade_responses = [], commands_read = []\<rparr>"

definition cmd_zero_quantity :: string where
  "cmd_zero_quantity = ''{\"symbol\":\"NQ\",\"side\":\"BUY\",\"quantity\":0,\"price\":0,\"order_type\":\"MARKET\"}''"

definition cmd_junk_quantity :: string where
  "cmd_junk_quantity = ''{\"symbol\":\"NQ\",\"side\":\"BUY\",\"quantity\":7x,\"price\":0,\"order_type\":\"MARKET\"}''"

definition cmd_text_quantity :: string where
  "cmd_text_quantity = ''{\"symbol\":\"NQ\",\"side\":\"BUY\",\"quantity\":seven,\"price\":0,\"order_type\":\"MARKET\"}''"

definition limit_buy :: TradeCommand where
  "limit_buy = \<lparr>command_id = ''c1'', action = ''BUY'', symbol = ''NQ'', quantity = 2,
     cmd_price = 95, order_type = ''LIMIT''\<rparr>"

definition market_buy :: TradeCommand where
  "market_buy = \<lparr>command_id = ''c1'', action = ''BUY'', symbol = ''NQ'', quantity = 2,
     cmd_price = 0, order_type = ''MARKET''\<rparr>"

definition trade_checks_pass :: "SCStudy \<Rightarrow> TradeCommand \<Rightarrow> bool" where
  \<comment> \<open>The checks of \<^verbatim>\<open>executeTrade\<close> before it builds the order, all passed.\<close>
  "trade_checks_pass sc cmd \<longleftrightarrow>
     AllowEntryWithWorkingOrders sc \<and> SendOrdersToTradeService sc
     \<and> (symbol cmd = [] \<or> CompareNoCase (Symbol sc) (symbol cmd) = 0)
     \<and> 0 < quantity cmd \<and> quantity cmd \<le> MAX_POSITION_SIZE
     \<and> 0 < Ask sc \<and> 0 < Bid sc"

definition bridge_order :: "TradeCommand \<Rightarrow> s_SCNewOrder" where
  \<comment> \<open>The order \<^verbatim>\<open>executeTrade\<close> hands to the host for a command.\<close>
  "bridge_order cmd =
     new_order\<lparr>OrderQuantity := quantity cmd,
       Price1 := (if order_type cmd = ''LIMIT'' \<and> cmd_price cmd > 0 then cmd_price cmd else 0),
       TimeInForce := SCT_TIF_DAY, OrderType := SCT_ORDERTYPE_MARKET\<rparr>"

definition field_text :: "string \<Rightarrow> string \<Rightarrow> string option" where
  \<comment> \<open>The text \<^verbatim>\<open>ExtractInt\<close> and \<^verbatim>\<open>ExtractFloat\<close> hand to the conversion: from the colon
     after the quoted key up to the next comma or closing brace; \<open>None\<close> when the key or
     the end is not found.\<close>
  "field_text json key =
     (case find json ([dq] @ key @ [dq] @ '':'') 0 of
        None \<Rightarrow> None
      | Some pos \<Rightarrow>
          (case find_first_of json '',}'' (pos + length ([dq] @ key @ [dq] @ '':'')) of
             None \<Rightarrow> None
           | Some endp \<Rightarrow>
               Some (take (endp - (pos + length ([dq] @ key @ [dq] @ '':'')))
                       (drop (pos + length ([dq] @ key @ [dq] @ '':'')) json))))"

definition order_of :: "host_call \<Rightarrow> s_SCNewOrder" where
  "order_of c = (case c of BuyEntry ord \<Rightarrow> ord | SellEntry ord \<Rightarrow> ord | SubmitNewOrder ord \<Rightarrow> ord)"

definition cmd_bridge_text_quantity :: string where
  "cmd_bridge_text_quantity = ''{\"command_id\":\"c1\",\"action\":\"BUY\",\"symbol\":\"NQ\",\"quantity\":seven}''"

definition files_zero_quantity :: ExporterFiles where
  \<comment> \<open>A command file whose command has the quantity 0, nothing read or written yet.\<close>
  "files_zero_quantity = no_files\<lparr>command_file := Some cmd_zero_quantity\<rparr>"

definition market_sell :: TradeCommand where
  "market_sell = \<lparr>command_id = ''c2'', action = ''SELL'', symbol = ''NQ'', quantity = 3,
     cmd_price = 0, order_type = ''MARKET''\<rparr>"

definition cmd_bridge_market_buy :: string where
  "cmd_bridge_market_buy = ''{\"command_id\":\"c1\",\"action\":\"BUY\",\"symbol\":\"NQ\",\"quantity\":2,\"order_type\":\"MARKET\"}''"

definition lower_buy :: TradeCommand where
  \<comment> \<open>A command whose action is spelt in lower case.\<close>
  "lower_buy = \<lparr>command_id = ''c3'', action = ''buy'', symbol = ''NQ'', quantity = 2,
     cmd_price = 0, order_type = ''MARKET''\<rparr>"

definition cmd_bridge_market_sell :: string where
  "cmd_bridge_market_sell = ''{\"command_id\":\"c2\",\"action\":\"SELL\",\"symbol\":\"NQ\",\"quantity\":3,\"order_type\":\"MARKET\"}''"

definition cmd_bridge_lower_buy :: string where
  "cmd_bridge_lower_buy = ''{\"command_id\":\"c3\",\"action\":\"buy\",\"symbol\":\"NQ\",\"quantity\":2,\"order_type\":\"MARKET\"}''"

chapter \<open>Properties\<close>

section \<open>Rounding to single precision\<close>

text \<open>
  The rounding is monotone, it leaves the numbers \<open>n * 2^e\<close> with \<open>\<bar>n\<bar> < 2^24\<close> and
  \<open>e \<ge> -149\<close> where they are, and twice a value of the type \<^verbatim>\<open>float\<close> is rounded to itself.
  \<open>r32_eval\<close> computes the rounding of a number whose exponent is given.
\<close>

lemma rne_of_int [simp]: "rne (of_int n) = n"
  by (simp add: rne_def)

lemma rne_bounds: "\<lfloor>x\<rfloor> \<le> rne x" "rne x \<le> \<lfloor>x\<rfloor> + 1"
  by (simp_all add: rne_def Let_def)

lemma rne_mono:
  assumes "x \<le> y"
  shows "rne x \<le> rne y"
proof (cases "\<lfloor>x\<rfloor> = \<lfloor>y\<rfloor>")
  case True
  with assms show ?thesis by (auto simp add: rne_def Let_def)
next
  case False
  with assms have "\<lfloor>x\<rfloor> < \<lfloor>y\<rfloor>"
    using floor_mono [of x y] by linarith
  with rne_bounds(2) [of x] rne_bounds(1) [of y] show ?thesis by linarith
qed

lemma rne_minus: "rne (- x) = - rne x"
proof (cases "x = of_int \<lfloor>x\<rfloor>")
  case True
  then obtain n where "x = of_int n" ..
  then have "- x = of_int (- n)" by simp
  then show ?thesis using \<open>x = of_int n\<close> by (simp only: rne_of_int)
next
  case False
  then have f: "\<lfloor>- x\<rfloor> = - \<lfloor>x\<rfloor> - 1"
    by (metis ceiling_altdef add_diff_cancel_right' minus_diff_eq uminus_add_conv_diff
        floor_minus)
  have d: "0 < x - of_int \<lfloor>x\<rfloor>"
    using False of_int_floor_le [of x] by linarith
  show ?thesis
    unfolding rne_def Let_def f using d by (auto simp add: algebra_simps)
qed

lemma filter_le_upto: "filter (\<lambda>k. k \<le> e) [i..j] = [i..min e j]"
proof (cases "e < i")
  case True
  then have "filter (\<lambda>k. k \<le> e) [i..j] = []" by (auto simp add: filter_empty_conv)
  with True show ?thesis by simp
next
  case False
  show ?thesis
  proof (cases "j \<le> e")
    case True
    then have "filter (\<lambda>k. k \<le> e) [i..j] = [i..j]" by (auto simp add: filter_id_conv)
    with True show ?thesis by (simp add: min_def)
  next
    case j: False
    with False have "[i..j] = [i..e] @ [e + 1..j]" by (intro upto_split2) auto
    moreover have "filter (\<lambda>k. k \<le> e) [i..e] = [i..e]" by (auto simp add: filter_id_conv)
    moreover have "filter (\<lambda>k. k \<le> e) [e + 1..j] = []" by (auto simp add: filter_empty_conv)
    ultimately show ?thesis using j by (simp add: min_def)
  qed
qed

lemma f32_exponent_eq:
  assumes "- 126 \<le> e" "e \<le> 127"
    and lo: "e = - 126 \<or> 2 powi e \<le> \<bar>x\<bar>"
    and hi: "e = 127 \<or> \<bar>x\<bar> < 2 powi (e + 1)"
  shows "f32_exponent x = e"
proof -
  have "(2 powi k \<le> \<bar>x\<bar>) = (k \<le> e)" if k: "- 125 \<le> k" "k \<le> 127" for k
  proof
    assume a: "2 powi k \<le> \<bar>x\<bar>"
    show "k \<le> e"
    proof (rule ccontr)
      assume "\<not> k \<le> e"
      then have "e + 1 \<le> k" by simp
      then have "(2::real) powi (e + 1) \<le> 2 powi k" by (intro power_int_increasing) auto
      moreover have "e \<noteq> 127" using k \<open>e + 1 \<le> k\<close> by linarith
      ultimately show False using hi a by linarith
    qed
  next
    assume "k \<le> e"
    then have "(2::real) powi k \<le> 2 powi e" by (intro power_int_increasing) auto
    moreover have "e \<noteq> - 126" using k \<open>k \<le> e\<close> by linarith
    ultimately show "2 powi k \<le> \<bar>x\<bar>" using lo by linarith
  qed
  then have "filter (\<lambda>k. 2 powi k \<le> \<bar>x\<bar>) [- 125..127] = filter (\<lambda>k. k \<le> e) [- 125..127]"
    by (intro filter_cong refl) (simp only: set_upto atLeastAtMost_iff)
  also have "\<dots> = [- 125..min e 127]"
    by (rule filter_le_upto)
  also have "min e 127 = e"
    using assms(2) by (rule min_absorb1)
  finally have "f32_exponent x = - 126 + int (length [- 125..e])"
    by (simp only: f32_exponent_def)
  also have "length [- 125..e] = nat (e - (- 125) + 1)"
    by (rule length_upto)
  finally show ?thesis
    using assms(1) by simp
qed

lemma f32_exponent_props:
  "- 126 \<le> f32_exponent x" "f32_exponent x \<le> 127"
  "- 126 < f32_exponent x \<Longrightarrow> 2 powi f32_exponent x \<le> \<bar>x\<bar>"
  "f32_exponent x < 127 \<Longrightarrow> \<bar>x\<bar> < 2 powi (f32_exponent x + 1)"
proof -
  have "\<exists>e. - 126 \<le> e \<and> e \<le> 127 \<and> (e = - 126 \<or> 2 powi e \<le> \<bar>x\<bar>)
          \<and> (e = 127 \<or> \<bar>x\<bar> < 2 powi (e + 1))"
  proof (cases "\<bar>x\<bar> < 2 powi (- 125)")
    case True
    then show ?thesis by (intro exI [of _ "- 126"]) simp
  next
    case lo: False
    show ?thesis
    proof (cases "2 powi 127 \<le> \<bar>x\<bar>")
      case True
      then show ?thesis by (intro exI [of _ 127]) simp
    next
      case hi: False
      define e where "e = \<lfloor>log 2 \<bar>x\<bar>\<rfloor>"
      have pos: "0 < \<bar>x\<bar>" using lo zero_less_power_int [of "2::real" "- 125"] by linarith
      have p: "(2::real) powr of_int k = 2 powi k" for k
        by (simp add: powr_real_of_int power_int_def power_one_over inverse_eq_divide)
      have "2 powr of_int e \<le> \<bar>x\<bar> \<and> \<bar>x\<bar> < 2 powr (of_int e + 1)"
        using floor_log_eq_powr_iff [of "\<bar>x\<bar>" 2 e] pos by (simp add: e_def)
      then have b: "2 powi e \<le> \<bar>x\<bar>" "\<bar>x\<bar> < 2 powi (e + 1)"
        using p [of e] p [of "e + 1"] by simp_all
      have "e < 127"
      proof (rule ccontr)
        assume "\<not> e < 127"
        then have "(2::real) powi 127 \<le> 2 powi e" by (intro power_int_increasing) auto
        with b hi show False by linarith
      qed
      moreover have "- 126 \<le> e"
      proof (rule ccontr)
        assume "\<not> - 126 \<le> e"
        then have "(2::real) powi (e + 1) \<le> 2 powi (- 125)" by (intro power_int_increasing) auto
        with b lo show False by linarith
      qed
      ultimately show ?thesis using b by (intro exI [of _ e]) simp
    qed
  qed
  then obtain e where e: "- 126 \<le> e" "e \<le> 127" "e = - 126 \<or> 2 powi e \<le> \<bar>x\<bar>"
    "e = 127 \<or> \<bar>x\<bar> < 2 powi (e + 1)" by blast
  then have "f32_exponent x = e" by (rule f32_exponent_eq)
  with e show "- 126 \<le> f32_exponent x" "f32_exponent x \<le> 127"
    "- 126 < f32_exponent x \<Longrightarrow> 2 powi f32_exponent x \<le> \<bar>x\<bar>"
    "f32_exponent x < 127 \<Longrightarrow> \<bar>x\<bar> < 2 powi (f32_exponent x + 1)"
    by auto
qed

lemma f32_exponent_minus [simp]: "f32_exponent (- x) = f32_exponent x"
  by (simp add: f32_exponent_def)

lemma r32_zero [simp]: "r32 0 = 0"
  by (simp add: r32_def rne_def)

lemma r32_minus: "r32 (- x) = - r32 x"
  by (simp add: r32_def rne_minus)

lemma powi_split: "(2::real) powi (e + 1) = 2 ^ 24 * 2 powi (e - 23)"
  "(2::real) powi e = 2 ^ 23 * 2 powi (e - 23)"
proof -
  have "(2::real) powi (e + 1) = 2 powi (24 + (e - 23))" by (simp add: add.commute)
  also have "\<dots> = 2 powi 24 * 2 powi (e - 23)" by (rule power_int_add) simp
  finally show "(2::real) powi (e + 1) = 2 ^ 24 * 2 powi (e - 23)" by simp
  have "(2::real) powi e = 2 powi (23 + (e - 23))" by (simp add: add.commute)
  also have "\<dots> = 2 powi 23 * 2 powi (e - 23)" by (rule power_int_add) simp
  finally show "(2::real) powi e = 2 ^ 23 * 2 powi (e - 23)" by simp
qed

lemma r32_upper:
  assumes "0 \<le> x" "f32_exponent x < 127"
  shows "r32 x \<le> 2 powi (f32_exponent x + 1)"
proof -
  define u :: real where "u = 2 powi (f32_exponent x - 23)"
  have u: "0 < u" by (simp add: u_def)
  have "x < 2 ^ 24 * u"
    using f32_exponent_props(4) [OF assms(2)] assms(1)
    by (simp add: u_def powi_split(1) [of "f32_exponent x"])
  then have "x / u \<le> of_int (2 ^ 24)" using u by (simp add: field_simps)
  then have "rne (x / u) \<le> 2 ^ 24" using rne_mono rne_of_int by metis
  then have "real_of_int (rne (x / u)) \<le> real_of_int (2 ^ 24)"
    by (simp only: of_int_le_iff)
  then have "of_int (rne (x / u)) * u \<le> 2 ^ 24 * u"
    using u by (intro mult_right_mono) simp_all
  then show ?thesis
    by (simp add: r32_def u_def powi_split(1) [of "f32_exponent x"])
qed

lemma r32_lower:
  assumes "0 \<le> x" "- 126 < f32_exponent x"
  shows "2 powi f32_exponent x \<le> r32 x"
proof -
  define u :: real where "u = 2 powi (f32_exponent x - 23)"
  have u: "0 < u" by (simp add: u_def)
  have "2 ^ 23 * u \<le> x"
    using f32_exponent_props(3) [OF assms(2)] assms(1)
    by (simp add: u_def powi_split(2) [of "f32_exponent x"])
  then have "of_int (2 ^ 23) \<le> x / u" using u by (simp add: field_simps)
  then have "2 ^ 23 \<le> rne (x / u)" using rne_mono rne_of_int by metis
  then have "real_of_int (2 ^ 23) \<le> real_of_int (rne (x / u))"
    by (simp only: of_int_le_iff)
  then have "2 ^ 23 * u \<le> of_int (rne (x / u)) * u"
    using u by (intro mult_right_mono) simp_all
  then show ?thesis
    by (simp add: r32_def u_def powi_split(2) [of "f32_exponent x"])
qed

lemma r32_mono_nonneg:
  assumes "0 \<le> x" "x \<le> y"
  shows "r32 x \<le> r32 y"
proof -
  have y: "0 \<le> y" using assms by simp
  consider "f32_exponent x = f32_exponent y" | "f32_exponent x < f32_exponent y"
    | "f32_exponent y < f32_exponent x" by linarith
  then show ?thesis
  proof cases
    case 1
    define u :: real where "u = 2 powi (f32_exponent y - 23)"
    have u: "0 < u" by (simp add: u_def)
    have "x / u \<le> y / u" using assms(2) u by (simp add: divide_right_mono)
    then have "rne (x / u) \<le> rne (y / u)" by (rule rne_mono)
    then have "of_int (rne (x / u)) * u \<le> of_int (rne (y / u)) * u"
      using u by simp
    then show ?thesis by (simp add: r32_def 1 u_def)
  next
    case 2
    have "f32_exponent x < 127" using 2 f32_exponent_props(2) [of y] by linarith
    then have "r32 x \<le> 2 powi (f32_exponent x + 1)" by (rule r32_upper [OF assms(1)])
    also have "\<dots> \<le> 2 powi f32_exponent y"
      using 2 by (intro power_int_increasing) auto
    also have "\<dots> \<le> r32 y"
      using 2 f32_exponent_props(1) [of x] by (intro r32_lower [OF y]) linarith
    finally show ?thesis .
  next
    case 3
    have "2 powi f32_exponent x \<le> \<bar>x\<bar>"
      using 3 f32_exponent_props(1) [of y] by (intro f32_exponent_props(3)) linarith
    moreover have "\<bar>y\<bar> < 2 powi (f32_exponent y + 1)"
      using 3 f32_exponent_props(2) [of x] by (intro f32_exponent_props(4)) linarith
    moreover have "(2::real) powi (f32_exponent y + 1) \<le> 2 powi f32_exponent x"
      using 3 by (intro power_int_increasing) auto
    ultimately show ?thesis using assms y by linarith
  qed
qed

lemma r32_nonneg: "0 \<le> x \<Longrightarrow> 0 \<le> r32 x"
  using r32_mono_nonneg [of 0 x] by simp

lemma r32_mono:
  assumes "x \<le> y"
  shows "r32 x \<le> r32 y"
proof -
  consider "0 \<le> x" | "x < 0" "0 \<le> y" | "y < 0" by linarith
  then show ?thesis
  proof cases
    case 1
    then show ?thesis using assms by (rule r32_mono_nonneg)
  next
    case 2
    have "0 \<le> r32 (- x)" using 2 by (intro r32_nonneg) simp
    moreover have "0 \<le> r32 y" using 2 by (intro r32_nonneg)
    ultimately show ?thesis by (simp add: r32_minus)
  next
    case 3
    have "r32 (- y) \<le> r32 (- x)" using 3 assms by (intro r32_mono_nonneg) simp_all
    then show ?thesis by (simp add: r32_minus)
  qed
qed

lemma r32_representable:
  assumes x: "x = of_int n * 2 powi e" and n: "\<bar>n\<bar> < 2 ^ 24" and e: "- 149 \<le> e"
  shows "r32 x = x"
proof -
  define E where "E = f32_exponent x - 23"
  have "\<exists>m. x / 2 powi E = of_int m"
  proof (cases "E \<le> e")
    case True
    then have "(2::real) powi (e - E) = 2 ^ nat (e - E)"
      by (simp add: power_int_def)
    moreover have "x / 2 powi E = of_int n * 2 powi (e - E)"
      by (simp add: x power_int_diff)
    ultimately have "x / 2 powi E = of_int (n * 2 ^ nat (e - E))" by simp
    then show ?thesis ..
  next
    case False
    then have "- 126 < f32_exponent x" using e by (simp add: E_def)
    then have "2 powi f32_exponent x \<le> \<bar>x\<bar>" by (rule f32_exponent_props(3))
    then have 1: "2 ^ 23 * 2 powi E \<le> \<bar>x\<bar>"
      by (simp only: E_def powi_split(2) [of "f32_exponent x"])
    have ax: "\<bar>x\<bar> = \<bar>real_of_int n\<bar> * 2 powi e"
      by (simp add: x abs_mult)
    have "(2::real) powi (e + 1) \<le> 2 powi E"
      using False by (intro power_int_increasing) auto
    then have 2: "2 * 2 powi e \<le> (2::real) powi E"
      by (simp add: power_int_add)
    have 3: "\<bar>real_of_int n\<bar> < 2 ^ 24"
      using n by (metis of_int_abs of_int_less_iff of_int_numeral of_int_power)
    have 4: "0 < (2::real) powi e" by simp
    have "2 ^ 23 * (2 * 2 powi e) \<le> 2 ^ 23 * (2::real) powi E"
      using 2 by (intro mult_left_mono) simp_all
    also have "\<dots> \<le> \<bar>real_of_int n\<bar> * 2 powi e"
      using 1 ax by simp
    also have "\<dots> < 2 ^ 24 * 2 powi e"
      using 3 4 by (intro mult_strict_right_mono)
    finally have False by simp
    then show ?thesis ..
  qed
  then obtain m where "x / 2 powi E = of_int m" ..
  then have "of_int (rne (x / 2 powi E)) * 2 powi E = x"
    by (simp add: field_simps)
  then show ?thesis by (simp add: r32_def E_def)
qed

lemma r32_eval:
  assumes "- 126 \<le> e" "e \<le> 127"
    and "e = - 126 \<or> 2 powi e \<le> \<bar>x\<bar>" "e = 127 \<or> \<bar>x\<bar> < 2 powi (e + 1)"
  shows "r32 x = of_int (rne (x / 2 powi (e - 23))) * 2 powi (e - 23)"
  using f32_exponent_eq [OF assms] by (simp add: r32_def)

lemma is_f32I:
  assumes "x = of_int n * 2 powi e" "\<bar>n\<bar> < 2 ^ 24" "- 149 \<le> e" "e \<le> 104"
  shows "is_f32 x"
proof -
  have "r32 x = x" using assms(1-3) by (rule r32_representable)
  moreover have "\<bar>x\<bar> \<le> FLT_MAX"
  proof -
    have "\<bar>n\<bar> \<le> 2 ^ 24 - 1" using assms(2) by simp
    then have "real_of_int \<bar>n\<bar> \<le> real_of_int (2 ^ 24 - 1)" by (simp only: of_int_le_iff)
    then have n: "\<bar>real_of_int n\<bar> \<le> 2 ^ 24 - 1" by simp
    have "(2::real) powi e \<le> 2 powi 104"
      using assms(4) by (intro power_int_increasing) auto
    then have e: "(2::real) powi e \<le> 2 ^ 104" by simp
    have "\<bar>x\<bar> = \<bar>real_of_int n\<bar> * 2 powi e" by (simp add: assms(1) abs_mult)
    also have "\<dots> \<le> (2 ^ 24 - 1) * 2 ^ 104"
      using n e by (intro mult_mono) simp_all
    finally show ?thesis by (simp only: FLT_MAX_def)
  qed
  ultimately show ?thesis by (simp add: is_f32_def)
qed

lemma is_f32_of_int: "\<bar>n\<bar> < 2 ^ 24 \<Longrightarrow> is_f32 (of_int n)"
  by (rule is_f32I [of _ n 0]) simp_all

lemma is_f32_numeral: "(numeral k :: int) < 2 ^ 24 \<Longrightarrow> is_f32 (numeral k)"
  using is_f32_of_int [of "numeral k"] by simp

lemma is_f32_zero [simp]: "is_f32 0"
  using is_f32_of_int [of 0] by simp

lemma is_f32_FLT_MAX: "is_f32 FLT_MAX"
  by (rule is_f32I [of _ "2 ^ 24 - 1" 104]) (simp_all add: FLT_MAX_def)

lemma is_f32_r32: "is_f32 x \<Longrightarrow> r32 x = x"
  by (simp add: is_f32_def)

lemma r32_le_FLT_MAX: "x \<le> FLT_MAX \<Longrightarrow> r32 x \<le> FLT_MAX"
  using r32_mono [of x FLT_MAX] is_f32_FLT_MAX by (simp add: is_f32_def)

lemma is_f32D:
  assumes "is_f32 x"
  shows "\<exists>n. \<bar>n\<bar> < 2 ^ 24 \<and> x = of_int n * 2 powi (f32_exponent x - 23)"
proof -
  define E where "E = f32_exponent x"
  define n where "n = rne (x / 2 powi (E - 23))"
  have x: "x = of_int n * 2 powi (E - 23)"
    using assms by (simp add: is_f32_def r32_def n_def E_def)
  have "\<bar>x\<bar> < 2 powi (E + 1)"
  proof (cases "E < 127")
    case True
    then show ?thesis unfolding E_def by (rule f32_exponent_props(4))
  next
    case False
    then have "E = 127" using f32_exponent_props(2) [of x] by (simp add: E_def)
    moreover have "\<bar>x\<bar> \<le> FLT_MAX" using assms by (simp add: is_f32_def)
    ultimately show ?thesis by (simp add: FLT_MAX_def)
  qed
  then have "\<bar>real_of_int n\<bar> * 2 powi (E - 23) < 2 ^ 24 * 2 powi (E - 23)"
    using x by (simp add: powi_split(1) [of E] abs_mult)
  then have "\<bar>real_of_int n\<bar> < 2 ^ 24" by simp
  then have "real_of_int \<bar>n\<bar> < real_of_int (2 ^ 24)" by simp
  then have "\<bar>n\<bar> < 2 ^ 24" by (simp only: of_int_less_iff)
  with x show ?thesis unfolding E_def by blast
qed

lemma r32_double:
  assumes "is_f32 x"
  shows "r32 (2 * x) = 2 * x"
proof -
  from is_f32D [OF assms] obtain n where
    n: "\<bar>n\<bar> < 2 ^ 24" "x = of_int n * 2 powi (f32_exponent x - 23)" by blast
  have "2 * x = of_int n * (2 * 2 powi (f32_exponent x - 23))"
    using n(2) by simp
  also have "2 * 2 powi (f32_exponent x - 23) = (2::real) powi (f32_exponent x - 23 + 1)"
    by (rule power_int_add_1' [symmetric]) simp
  finally have "2 * x = of_int n * 2 powi (f32_exponent x - 23 + 1)" .
  moreover have "- 149 \<le> f32_exponent x - 23 + 1"
    using f32_exponent_props(1) [of x] by simp
  ultimately show ?thesis
    using n(1) by (intro r32_representable [of _ n "f32_exponent x - 23 + 1"])
qed

section \<open>The circular buffer\<close>

lemma GetRecentTicks_loop_eq:
  "GetRecentTicks_loop b ac i acc =
     acc @ filter (\<lambda>t. timestamp_us t > 0) (map (\<lambda>i. buffer b ! recent_index b ac i) [i..<ac])"
proof (induction b ac i acc rule: GetRecentTicks_loop.induct)
  case (1 b ac i acc)
  show ?case
  proof (cases "i < ac")
    case True
    then have upt: "[i..<ac] = i # [i + 1..<ac]"
      by (simp add: upt_conv_Cons)
    show ?thesis
      using True "1.IH" [OF True refl]
      by (subst GetRecentTicks_loop.simps) (simp add: upt Let_def)
  next
    case False
    then show ?thesis
      by (subst GetRecentTicks_loop.simps) simp
  qed
qed

lemma pushes_snoc: "pushes (ts @ [t]) b = AddTick t (pushes ts b)"
  by (simp add: pushes_def)

lemma stamp_length [simp]: "length (stamp ts) = length ts"
  by (simp add: stamp_def)

lemma stamp_nth: "j < length ts \<Longrightarrow> stamp ts ! j = (ts ! j)\<lparr>sequence := word_of_nat j\<rparr>"
  by (simp add: stamp_def)

lemma stamp_snoc: "stamp (ts @ [t]) = stamp ts @ [t\<lparr>sequence := word_of_nat (length ts)\<rparr>]"
  by (rule nth_equalityI) (auto simp: stamp_nth nth_append less_Suc_eq)

lemma buf_inv_init: "buf_inv cap [] (TickBuffer_init cap)"
  by (simp add: buf_inv_def TickBuffer_init_def)

lemma mod_neq_close:
  fixes j k cap :: nat
  assumes "j < k" "k - j < cap"
  shows "j mod cap \<noteq> k mod cap"
proof
  assume eq: "j mod cap = k mod cap"
  then have "(k - j) mod cap = 0"
    using assms(1) by (metis mod_eq_dvd_iff_nat less_imp_le_nat dvd_imp_mod_0)
  with assms show False by (simp add: mod_less)
qed

lemma buf_inv_AddTick:
  assumes inv: "buf_inv cap ts b" and cap: "0 < cap"
  shows "buf_inv cap (ts @ [t]) (AddTick t b)"
proof -
  let ?k = "length ts"
  from inv have ms: "maxSize b = cap" and len: "length (buffer b) = cap"
    and wi: "writeIndex b = ?k mod cap" and sc: "sequenceCounter b = word_of_nat ?k"
    and old: "\<And>j. j < ?k \<Longrightarrow> ?k - j \<le> cap \<Longrightarrow> buffer b ! (j mod cap) = stamp ts ! j"
    and fresh: "\<And>i. i < cap \<Longrightarrow> ?k \<le> i \<Longrightarrow> buffer b ! i = zero_tick"
    by (auto simp: buf_inv_def)
  have wlt: "?k mod cap < cap" using cap by simp
  have buf: "buffer (AddTick t b) = (buffer b)[?k mod cap := t\<lparr>sequence := word_of_nat ?k\<rparr>]"
    by (simp add: AddTick_def wi sc)
  have a: "maxSize (AddTick t b) = cap" by (simp add: AddTick_def ms)
  have b: "length (buffer (AddTick t b)) = cap" by (simp add: buf len)
  have c: "writeIndex (AddTick t b) = length (ts @ [t]) mod cap"
    by (simp add: AddTick_def ms wi mod_Suc_eq)
  have d: "sequenceCounter (AddTick t b) = word_of_nat (length (ts @ [t]))"
    by (simp add: AddTick_def sc)
  have e: "buffer (AddTick t b) ! (j mod cap) = stamp (ts @ [t]) ! j"
    if "j < length (ts @ [t])" "length (ts @ [t]) - j \<le> cap" for j
  proof (cases "j = ?k")
    case True
    then show ?thesis using wlt by (simp add: buf len stamp_snoc nth_append)
  next
    case False
    with that have jl: "j < ?k" and near: "?k - j < cap" by auto
    have "j mod cap \<noteq> ?k mod cap" by (rule mod_neq_close [OF jl near])
    then show ?thesis
      using jl near old [of j] by (simp add: buf stamp_snoc nth_append)
  qed
  have f: "buffer (AddTick t b) ! i = zero_tick" if "i < cap" "length (ts @ [t]) \<le> i" for i
  proof -
    from that have "?k < cap" "?k \<noteq> i" "?k \<le> i" by auto
    then show ?thesis using fresh [of i] that by (simp add: buf)
  qed
  show ?thesis
    unfolding buf_inv_def using a b c d e f by blast
qed

lemma buf_inv_pushes: "0 < cap \<Longrightarrow> buf_inv cap ts (pushes ts (TickBuffer_init cap))"
proof (induction ts rule: rev_induct)
  case Nil
  then show ?case by (simp add: pushes_def buf_inv_init)
next
  case (snoc t ts)
  then show ?case by (simp add: pushes_snoc buf_inv_AddTick)
qed

lemma recent_index_written:
  assumes inv: "buf_inv cap ts b" and cap: "0 < cap" and ac: "ac \<le> cap" and i: "i < ac"
    and ge: "ac \<le> length ts + i"
  shows "buffer b ! recent_index b ac i = stamp ts ! (length ts + i - ac)"
proof -
  let ?k = "length ts"
  let ?j = "?k + i - ac"
  from inv have ms: "maxSize b = cap" and wi: "writeIndex b = ?k mod cap"
    and old: "\<And>j. j < ?k \<Longrightarrow> ?k - j \<le> cap \<Longrightarrow> buffer b ! (j mod cap) = stamp ts ! j"
    by (auto simp: buf_inv_def)
  have "int (?k mod cap) - int ac + int i + int cap
          = int ?k mod int cap + (int i - int ac + int cap)"
    by (simp add: zmod_int)
  then have "(int (?k mod cap) - int ac + int i + int cap) mod int cap
          = (int ?k + (int i - int ac + int cap)) mod int cap"
    by (simp only: mod_add_left_eq)
  also have "\<dots> = (int ?k - int ac + int i + int cap) mod int cap"
    by (simp add: algebra_simps)
  also have "\<dots> = (int ?k - int ac + int i) mod int cap"
    by simp
  finally have "(int (?k mod cap) - int ac + int i + int cap) mod int cap
          = (int ?k - int ac + int i) mod int cap" .
  also have "int ?k - int ac + int i = int ?j" using ge by simp
  finally have "recent_index b ac i = ?j mod cap"
    by (simp add: recent_index_def ms wi flip: zmod_int)
  moreover have "?j < ?k" "?k - ?j \<le> cap" using i ac ge by auto
  ultimately show ?thesis using old [of ?j] by simp
qed

lemma recent_index_unwritten:
  assumes inv: "buf_inv cap ts b" and cap: "0 < cap" and ac: "ac \<le> cap" and i: "i < ac"
    and lt: "length ts + i < ac"
  shows "buffer b ! recent_index b ac i = zero_tick"
proof -
  let ?k = "length ts"
  from inv have ms: "maxSize b = cap" and wi: "writeIndex b = ?k mod cap"
    and fresh: "\<And>i. i < cap \<Longrightarrow> ?k \<le> i \<Longrightarrow> buffer b ! i = zero_tick"
    by (auto simp: buf_inv_def)
  have kc: "?k < cap" using lt ac by simp
  have "int ?k - int ac + int i + int cap = int (?k + i + cap - ac)" using ac by simp
  moreover have "?k + i + cap - ac < cap" using lt ac by simp
  ultimately have "recent_index b ac i = ?k + i + cap - ac"
    using kc by (simp add: recent_index_def ms wi flip: zmod_int)
  moreover have "?k \<le> ?k + i + cap - ac" using ac by simp
  ultimately show ?thesis using fresh [of "?k + i + cap - ac"] \<open>?k + i + cap - ac < cap\<close> by simp
qed

lemma window_eq:
  assumes inv: "buf_inv cap ts b" and cap: "0 < cap" and ac: "ac \<le> cap"
  shows "map (\<lambda>i. buffer b ! recent_index b ac i) [0..<ac]
           = replicate (ac - length ts) zero_tick @ drop (length ts - ac) (stamp ts)"
proof (rule nth_equalityI)
  show "length (map (\<lambda>i. buffer b ! recent_index b ac i) [0..<ac])
          = length (replicate (ac - length ts) zero_tick @ drop (length ts - ac) (stamp ts))"
    by simp
next
  fix i assume "i < length (map (\<lambda>i. buffer b ! recent_index b ac i) [0..<ac])"
  then have i: "i < ac" by simp
  show "map (\<lambda>i. buffer b ! recent_index b ac i) [0..<ac] ! i
          = (replicate (ac - length ts) zero_tick @ drop (length ts - ac) (stamp ts)) ! i"
  proof (cases "length ts + i < ac")
    case True
    then show ?thesis
      using i recent_index_unwritten [OF inv cap ac i True] by (simp add: nth_append)
  next
    case False
    then have ge: "ac \<le> length ts + i" by simp
    have "length ts - ac + (i - (ac - length ts)) = length ts + i - ac" using ge by simp
    then show ?thesis
      using i ge recent_index_written [OF inv cap ac i ge] by (simp add: nth_append)
  qed
qed

lemma GetRecentTicks_pushes:
  assumes cap: "0 < cap"
  shows "GetRecentTicks n (pushes ts (TickBuffer_init cap))
           = filter (\<lambda>t. timestamp_us t > 0) (drop (length ts - min n cap) (stamp ts))"
proof -
  let ?b = "pushes ts (TickBuffer_init cap)"
  have inv: "buf_inv cap ts ?b" by (rule buf_inv_pushes [OF cap])
  then have ms: "maxSize ?b = cap" by (simp add: buf_inv_def)
  have ac: "(if n < cap then n else cap) = min n cap" by simp
  have z: "filter (\<lambda>t. timestamp_us t > 0) (replicate m zero_tick) = []" for m
    by (simp add: zero_tick_def)
  show ?thesis
    unfolding GetRecentTicks_def Let_def ms ac GetRecentTicks_loop_eq
    using window_eq [OF inv cap, of "min n cap"] by (simp add: z)
qed

lemma GetRecentTicks_length: "length (GetRecentTicks n b) \<le> min n (maxSize b)"
proof -
  define ac where "ac = (if n < maxSize b then n else maxSize b)"
  define w where "w = map (\<lambda>i. buffer b ! recent_index b ac i) [0..<ac]"
  have "GetRecentTicks n b = filter (\<lambda>t. timestamp_us t > 0) w"
    by (simp add: GetRecentTicks_def Let_def GetRecentTicks_loop_eq ac_def w_def)
  then have "length (GetRecentTicks n b) \<le> length w"
    by (simp only: length_filter_le)
  also have "length w = ac" by (simp add: w_def)
  also have "ac = min n (maxSize b)" by (simp add: ac_def)
  finally show ?thesis .
qed

lemma sorted_stamp:
  assumes "length ts \<le> 65536"
  shows "sorted (map (\<lambda>t. unat (sequence t)) (stamp ts))"
proof -
  have "map (\<lambda>t. unat (sequence t)) (stamp ts) = map (\<lambda>j. unat (word_of_nat j :: u16)) [0..<length ts]"
    by (simp add: stamp_def)
  also have "\<dots> = map (\<lambda>j. j) [0..<length ts]"
  proof (rule map_cong [OF refl])
    fix j assume "j \<in> set [0..<length ts]"
    then have "j < 65536" using assms by simp
    then show "unat (word_of_nat j :: u16) = j"
      by (simp add: unat_of_nat take_bit_nat_eq_self)
  qed
  finally show ?thesis by simp
qed

lemma sorted_map_drop_filter:
  "sorted (map f xs) \<Longrightarrow> sorted (map f (filter P (drop d xs)))"
proof -
  assume s: "sorted (map f xs)"
  have "sorted (map f (drop d xs))" using s by (simp add: drop_map [symmetric] sorted_wrt_drop)
  then show ?thesis by (simp add: sorted_map sorted_wrt_filter)
qed

lemma stamp_replicate: "stamp (replicate m t) = map (\<lambda>j. t\<lparr>sequence := word_of_nat j\<rparr>) [0..<m]"
  by (simp add: stamp_def)

lemma drop_stamp_replicate:
  "drop d (stamp (replicate m t)) = map (\<lambda>j. t\<lparr>sequence := word_of_nat j\<rparr>) [d..<m]"
  by (simp add: stamp_replicate drop_map)

lemma recent_replicate:
  assumes "0 < cap" "n \<le> cap" "n \<le> m" "timestamp_us t > 0"
  shows "map (\<lambda>t. unat (sequence t)) (GetRecentTicks n (pushes (replicate m t) (TickBuffer_init cap)))
           = map (\<lambda>j. unat (word_of_nat j :: u16)) [m - n..<m]"
proof -
  have "min n cap = n" using assms by simp
  then show ?thesis
    using assms by (simp add: GetRecentTicks_pushes drop_stamp_replicate filter_map o_def)
qed

text \<open>
  What holds of \<open>GetRecentTicks\<close>: for every capacity \<open>cap > 0\<close>, every sequence \<open>ts\<close>
  of pushes into a fresh buffer and every \<open>n\<close>, it returns at most \<open>min n cap\<close> entries;
  every returned entry is one of the pushed ticks with the sequence number the buffer gave
  it; and the returned sequence numbers are in non-decreasing order as long as at most
  65536 ticks have been pushed.
\<close>

lemma recent_ticks_bounded_written_sorted:
  assumes "0 < cap"
  shows "length (GetRecentTicks n (pushes ts (TickBuffer_init cap))) \<le> min n cap
       \<and> set (GetRecentTicks n (pushes ts (TickBuffer_init cap))) \<subseteq> set (stamp ts)
       \<and> (length ts \<le> 65536 \<longrightarrow>
            sorted (map (\<lambda>t. unat (sequence t)) (GetRecentTicks n (pushes ts (TickBuffer_init cap)))))"
proof -
  have ms: "maxSize (pushes ts (TickBuffer_init cap)) = cap"
    using buf_inv_pushes [OF assms, of ts] by (simp add: buf_inv_def)
  have a: "length (GetRecentTicks n (pushes ts (TickBuffer_init cap))) \<le> min n cap"
    using GetRecentTicks_length [of n "pushes ts (TickBuffer_init cap)"] by (simp add: ms)
  have b: "set (GetRecentTicks n (pushes ts (TickBuffer_init cap))) \<subseteq> set (stamp ts)"
    unfolding GetRecentTicks_pushes [OF assms] using set_drop_subset by fastforce
  have c: "sorted (map (\<lambda>t. unat (sequence t)) (GetRecentTicks n (pushes ts (TickBuffer_init cap))))"
    if "length ts \<le> 65536"
    unfolding GetRecentTicks_pushes [OF assms]
    by (rule sorted_map_drop_filter [OF sorted_stamp [OF that]])
  show ?thesis using a b c by blast
qed

lemma recent_ticks_example:
  "map (\<lambda>t. unat (sequence t))
     (GetRecentTicks 2 (pushes [tick1, tick1, tick1, tick1] (TickBuffer_init 3))) = [2, 3]"
proof -
  have u: "[4 - 2..<4] = [2, 3::nat]"
    by (simp add: upt_rec)
  have t: "timestamp_us tick1 > 0" by (simp add: tick1_def)
  have r: "[tick1, tick1, tick1, tick1] = replicate 4 tick1"
    by (simp add: numeral_eq_Suc)
  have c: "(0::nat) < 3" "(2::nat) \<le> 3" "(2::nat) \<le> 4" by simp_all
  show ?thesis
    unfolding r recent_replicate [OF c t] u by simp
qed

text \<open>
  C7: the entries \<open>GetRecentTicks\<close> returns are in non-decreasing order of their sequence
  numbers. At the failing input the order is broken: the sequence counter has 16 bits, so
  after 65537 pushes into the buffer of the source (capacity 20000) the call the source
  makes, \<open>GetRecentTicks 200\<close>, returns 200 entries that end with the sequence numbers
  65535 and 0.
\<close>

theorem C7_sequence_wraps:
  "length (GetRecentTicks 200 (pushes wrap_ticks (TickBuffer_init 20000))) = 200
   \<and> drop 198 (map (\<lambda>t. unat (sequence t))
        (GetRecentTicks 200 (pushes wrap_ticks (TickBuffer_init 20000)))) = [65535, 0]
   \<and> \<not> sorted (map (\<lambda>t. unat (sequence t))
          (GetRecentTicks 200 (pushes wrap_ticks (TickBuffer_init 20000))))"
proof -
  let ?xs = "map (\<lambda>t. unat (sequence t))
      (GetRecentTicks 200 (pushes wrap_ticks (TickBuffer_init 20000)))"
  have t: "timestamp_us tick1 > 0" by (simp add: tick1_def)
  have c: "(0::nat) < 20000" "(200::nat) \<le> 20000" "(200::nat) \<le> 65537" by simp_all
  have e: "?xs = map (\<lambda>j. unat (word_of_nat j :: u16)) [65537 - 200..<65537]"
    unfolding wrap_ticks_def by (rule recent_replicate [OF c t])
  have l: "length ?xs = 200"
    unfolding e by simp
  have "drop 198 ?xs = map (\<lambda>j. unat (word_of_nat j :: u16)) [65537 - 200 + 198..<65537]"
    unfolding e by (simp only: drop_map drop_upt)
  also have "[65537 - 200 + 198..<65537] = [65535, 65536::nat]"
    by (simp add: upt_rec)
  finally have d: "drop 198 ?xs = [65535, 0]"
    by simp
  have "\<not> sorted ?xs"
  proof
    assume "sorted ?xs"
    then have "sorted (drop 198 ?xs)" by (rule sorted_wrt_drop)
    then show False unfolding d by simp
  qed
  with l d show ?thesis by simp
qed

section \<open>Trade side\<close>

lemma not_overflows: "0 \<le> x \<Longrightarrow> x \<le> FLT_MAX \<Longrightarrow> \<not> overflows x"
  using r32_nonneg [of x] r32_le_FLT_MAX [of x] by (simp add: overflows_def)

lemma is_f32_not_overflows: "is_f32 x \<Longrightarrow> \<not> overflows x"
  by (simp add: overflows_def is_f32_def)

lemma FIXED_quotes:
  "0 < b \<Longrightarrow> 0 < a \<Longrightarrow>
   DetermineTradeSide_FIXED pr b a l =
     (if \<not> overflows (b + a) \<and> r32 (r32 (b + a) / 2) \<le> pr then CHR ''B'' else CHR ''S'')"
  by (simp add: DetermineTradeSide_FIXED_def Let_def)

lemma FIXED_no_quotes:
  "\<not> (0 < b \<and> 0 < a) \<Longrightarrow>
   DetermineTradeSide_FIXED pr b a l = side_char (spec_Classify pr b a l)"
  by (auto simp: DetermineTradeSide_FIXED_def spec_Classify_def side_char_def)

lemma midpoint_le:
  assumes "b + a \<le> FLT_MAX" "is_f32 pr" "(b + a) / 2 \<le> pr"
  shows "r32 (r32 (b + a) / 2) \<le> pr"
proof -
  have "r32 (b + a) \<le> 2 * pr"
  proof (cases "2 * pr \<le> FLT_MAX")
    case True
    have "r32 (b + a) \<le> r32 (2 * pr)" using assms(3) by (intro r32_mono) simp
    then show ?thesis by (simp only: r32_double [OF assms(2)])
  next
    case False
    with r32_le_FLT_MAX [OF assms(1)] show ?thesis by simp
  qed
  then have "r32 (r32 (b + a) / 2) \<le> r32 pr" by (intro r32_mono) simp
  then show ?thesis by (simp only: is_f32_r32 [OF assms(2)])
qed

lemma midpoint_ge:
  assumes "is_f32 f" "f \<le> (b + a) / 2"
  shows "f \<le> r32 (r32 (b + a) / 2)"
proof -
  have "r32 (2 * f) \<le> r32 (b + a)" using assms(2) by (intro r32_mono) simp
  then have "f \<le> r32 (b + a) / 2" by (simp add: r32_double [OF assms(1)])
  then have "r32 f \<le> r32 (r32 (b + a) / 2)" by (rule r32_mono)
  then show ?thesis by (simp only: is_f32_r32 [OF assms(1)])
qed

lemma FIXED_buy:
  assumes "0 < b" "0 < a" "b + a \<le> FLT_MAX" "is_f32 pr" "(b + a) / 2 \<le> pr"
  shows "DetermineTradeSide_FIXED pr b a l = CHR ''B''"
  using midpoint_le [OF assms(3-5)] not_overflows [of "b + a"] assms(1-3)
  by (simp add: FIXED_quotes)

lemma FIXED_sell:
  assumes "0 < b" "0 < a" "is_f32 f" "pr < f" "f \<le> (b + a) / 2"
  shows "DetermineTradeSide_FIXED pr b a l = CHR ''S''"
  using midpoint_ge [OF assms(3,5)] assms(1,2,4) by (simp add: FIXED_quotes)

lemma FIXED_at_ask:
  assumes "0 < b" "b \<le> a" "b + a \<le> FLT_MAX" "is_f32 pr" "a \<le> pr"
  shows "DetermineTradeSide_FIXED pr b a l = CHR ''B''"
  using assms by (intro FIXED_buy) simp_all

lemma FIXED_below_bid:
  assumes "0 < b" "b \<le> a" "is_f32 b" "pr < b"
  shows "DetermineTradeSide_FIXED pr b a l = CHR ''S''"
  using assms by (intro FIXED_sell [of b a b]) simp_all

lemma epsilon_nonneg: "0 \<le> epsilon"
  unfolding epsilon_def by (rule r32_nonneg) simp

lemma COMPLETE_at_ask:
  "r32 (a - epsilon) \<le> pr \<Longrightarrow> DetermineTradeSide_COMPLETE pr b a l = CHR ''B''"
  by (simp add: DetermineTradeSide_COMPLETE_def Let_def)

lemma COMPLETE_above_ask:
  assumes "is_f32 a" "a \<le> pr"
  shows "DetermineTradeSide_COMPLETE pr b a l = CHR ''B''"
proof -
  have "r32 (a - epsilon) \<le> r32 a" using epsilon_nonneg by (intro r32_mono) simp
  then have "r32 (a - epsilon) \<le> pr" using assms by (simp add: is_f32_r32)
  then show ?thesis by (rule COMPLETE_at_ask)
qed

lemma COMPLETE_at_bid:
  "pr < r32 (a - epsilon) \<Longrightarrow> pr \<le> r32 (b + epsilon) \<Longrightarrow>
   DetermineTradeSide_COMPLETE pr b a l = CHR ''S''"
  by (simp add: DetermineTradeSide_COMPLETE_def Let_def)

lemma COMPLETE_below_bid:
  assumes "pr < r32 (a - epsilon)" "is_f32 b" "pr \<le> b"
  shows "DetermineTradeSide_COMPLETE pr b a l = CHR ''S''"
proof -
  have "r32 b \<le> r32 (b + epsilon)" using epsilon_nonneg by (intro r32_mono) simp
  then have "pr \<le> r32 (b + epsilon)" using assms by (simp add: is_f32_r32)
  with assms(1) show ?thesis by (rule COMPLETE_at_bid)
qed

lemma COMPLETE_inside:
  assumes "r32 (b + epsilon) < pr" "pr < r32 (a - epsilon)"
  shows "DetermineTradeSide_COMPLETE pr b a l =
           (if l \<le> 0 then CHR ''U''
            else if r32 (l + epsilon) < pr then CHR ''B''
            else if pr < r32 (l - epsilon) then CHR ''S''
            else if r32 \<bar>pr - b\<bar> < r32 \<bar>a - pr\<bar> then CHR ''S''
            else if r32 \<bar>a - pr\<bar> < r32 \<bar>pr - b\<bar> then CHR ''B''
            else CHR ''U'')"
proof -
  have d: "(if pr > x then r32 (pr - x) else r32 (x - pr)) = r32 \<bar>pr - x\<bar>" for x
    by (simp add: abs_if r32_minus)
  have d': "r32 \<bar>pr - a\<bar> = r32 \<bar>a - pr\<bar>" by (simp add: abs_minus_commute)
  show ?thesis
    using assms by (simp add: DetermineTradeSide_COMPLETE_def Let_def d d')
qed

text \<open>
  C5 (amended). Prices are values of the type \<^verbatim>\<open>float\<close> and every operation rounds to single
  precision. In the FIXED variant with both quotes positive, the result is a buy when the
  sum of the quotes does not overflow and the price is at least the midpoint as the source
  computes it, the rounded half of the rounded sum of the quotes, and a sell otherwise. So
  a price at or above the exact midpoint is a buy, provided the sum of the quotes does not
  overflow: in particular a price at or above the ask when the quotes are not crossed. A price is a sell when some value of the type
  \<^verbatim>\<open>float\<close> lies strictly above it and at or below the exact midpoint: in particular a
  price strictly below the bid when the quotes are not crossed. A price below the exact
  midpoint by less than the rounding can be a buy. With a quote that is not positive the
  last price decides as the specification says, and equality or a missing last price gives
  unknown. In the COMPLETE variant the classifier does not look at the sign of the quotes
  and does not use the midpoint: with \<open>epsilon\<close> the constant \<^verbatim>\<open>0.0001f\<close>, a price at least
  the rounded \<open>ask - epsilon\<close> is a buy, in particular every price at or above the ask;
  otherwise a price at most the rounded \<open>bid + epsilon\<close> is a sell, in particular every
  price at or below the bid; strictly between the two thresholds the result is unknown
  without a last price, a buy or a sell when the price is above the rounded
  \<open>last + epsilon\<close> or below the rounded \<open>last - epsilon\<close>, and otherwise the nearer quote
  decides by the rounded distances (sell for the bid, buy for the ask), equal distances
  being unknown.
\<close>

theorem C5_trade_side:
  "(0 < b \<and> 0 < a \<longrightarrow>
      DetermineTradeSide_FIXED pr b a l =
        (if \<not> overflows (b + a) \<and> r32 (r32 (b + a) / 2) \<le> pr then CHR ''B'' else CHR ''S''))
   \<and> (0 < b \<and> 0 < a \<and> b + a \<le> FLT_MAX \<and> is_f32 pr \<and> (b + a) / 2 \<le> pr \<longrightarrow>
      DetermineTradeSide_FIXED pr b a l = CHR ''B'')
   \<and> (0 < b \<and> 0 < a \<and> is_f32 f \<and> pr < f \<and> f \<le> (b + a) / 2 \<longrightarrow>
      DetermineTradeSide_FIXED pr b a l = CHR ''S'')
   \<and> (0 < b \<and> b \<le> a \<and> b + a \<le> FLT_MAX \<and> is_f32 pr \<and> a \<le> pr \<longrightarrow>
      DetermineTradeSide_FIXED pr b a l = CHR ''B'')
   \<and> (0 < b \<and> b \<le> a \<and> is_f32 b \<and> pr < b \<longrightarrow>
      DetermineTradeSide_FIXED pr b a l = CHR ''S'')
   \<and> (\<not> (0 < b \<and> 0 < a) \<longrightarrow>
      DetermineTradeSide_FIXED pr b a l = side_char (spec_Classify pr b a l))
   \<and> (r32 (a - epsilon) \<le> pr \<longrightarrow> DetermineTradeSide_COMPLETE pr b a l = CHR ''B'')
   \<and> (is_f32 a \<and> a \<le> pr \<longrightarrow> DetermineTradeSide_COMPLETE pr b a l = CHR ''B'')
   \<and> (pr < r32 (a - epsilon) \<and> pr \<le> r32 (b + epsilon) \<longrightarrow>
      DetermineTradeSide_COMPLETE pr b a l = CHR ''S'')
   \<and> (pr < r32 (a - epsilon) \<and> is_f32 b \<and> pr \<le> b \<longrightarrow>
      DetermineTradeSide_COMPLETE pr b a l = CHR ''S'')
   \<and> (r32 (b + epsilon) < pr \<and> pr < r32 (a - epsilon) \<longrightarrow>
        DetermineTradeSide_COMPLETE pr b a l =
           (if l \<le> 0 then CHR ''U''
            else if r32 (l + epsilon) < pr then CHR ''B''
            else if pr < r32 (l - epsilon) then CHR ''S''
            else if r32 \<bar>pr - b\<bar> < r32 \<bar>a - pr\<bar> then CHR ''S''
            else if r32 \<bar>a - pr\<bar> < r32 \<bar>pr - b\<bar> then CHR ''B''
            else CHR ''U''))"
proof (intro conjI impI)
  assume "0 < b \<and> 0 < a"
  then show "DetermineTradeSide_FIXED pr b a l =
        (if \<not> overflows (b + a) \<and> r32 (r32 (b + a) / 2) \<le> pr then CHR ''B'' else CHR ''S'')"
    using FIXED_quotes [of b a pr l] by blast
next
  assume "0 < b \<and> 0 < a \<and> b + a \<le> FLT_MAX \<and> is_f32 pr \<and> (b + a) / 2 \<le> pr"
  then show "DetermineTradeSide_FIXED pr b a l = CHR ''B''"
    using FIXED_buy [of b a pr l] by blast
next
  assume "0 < b \<and> 0 < a \<and> is_f32 f \<and> pr < f \<and> f \<le> (b + a) / 2"
  then show "DetermineTradeSide_FIXED pr b a l = CHR ''S''"
    using FIXED_sell [of b a f pr l] by blast
next
  assume "0 < b \<and> b \<le> a \<and> b + a \<le> FLT_MAX \<and> is_f32 pr \<and> a \<le> pr"
  then show "DetermineTradeSide_FIXED pr b a l = CHR ''B''"
    using FIXED_at_ask [of b a pr l] by blast
next
  assume "0 < b \<and> b \<le> a \<and> is_f32 b \<and> pr < b"
  then show "DetermineTradeSide_FIXED pr b a l = CHR ''S''"
    using FIXED_below_bid [of b a pr l] by blast
next
  assume "\<not> (0 < b \<and> 0 < a)"
  then show "DetermineTradeSide_FIXED pr b a l = side_char (spec_Classify pr b a l)"
    by (rule FIXED_no_quotes)
next
  assume "r32 (a - epsilon) \<le> pr"
  then show "DetermineTradeSide_COMPLETE pr b a l = CHR ''B''"
    by (rule COMPLETE_at_ask)
next
  assume "is_f32 a \<and> a \<le> pr"
  then show "DetermineTradeSide_COMPLETE pr b a l = CHR ''B''"
    using COMPLETE_above_ask [of a pr b l] by blast
next
  assume "pr < r32 (a - epsilon) \<and> pr \<le> r32 (b + epsilon)"
  then show "DetermineTradeSide_COMPLETE pr b a l = CHR ''S''"
    using COMPLETE_at_bid [of pr a b l] by blast
next
  assume "pr < r32 (a - epsilon) \<and> is_f32 b \<and> pr \<le> b"
  then show "DetermineTradeSide_COMPLETE pr b a l = CHR ''S''"
    using COMPLETE_below_bid [of pr a b l] by blast
next
  assume "r32 (b + epsilon) < pr \<and> pr < r32 (a - epsilon)"
  then show "DetermineTradeSide_COMPLETE pr b a l =
           (if l \<le> 0 then CHR ''U''
            else if r32 (l + epsilon) < pr then CHR ''B''
            else if pr < r32 (l - epsilon) then CHR ''S''
            else if r32 \<bar>pr - b\<bar> < r32 \<bar>a - pr\<bar> then CHR ''S''
            else if r32 \<bar>a - pr\<bar> < r32 \<bar>pr - b\<bar> then CHR ''B''
            else CHR ''U'')"
    using COMPLETE_inside [of b pr a l] by blast
qed

lemma epsilon_value: "epsilon = 13743895 / 137438953472"
  by (simp add: epsilon_def r32_eval [of "- 14"] rne_def)

lemma r32_numerals:
  "r32 (101 - epsilon) = 13238259 / 131072"
  "r32 (99 + epsilon) = 12976141 / 131072"
  "r32 (101 + epsilon) = 13238285 / 131072"
  "r32 (100 + epsilon) = 13107213 / 131072"
  "r32 (100 - epsilon) = 13107187 / 131072"
  "r32 (0 - epsilon) = - (13743895 / 137438953472)"
  "r32 (0 + epsilon) = 13743895 / 137438953472"
  by (simp_all add: epsilon_value r32_minus r32_eval [of "- 14"] r32_eval [of 6] rne_def)

lemma is_f32_demo:
  "is_f32 5" "is_f32 99" "is_f32 100" "is_f32 101" "is_f32 200" "is_f32 12"
  "is_f32 1" "is_f32 6"
  by (simp_all add: is_f32_numeral) (rule is_f32_of_int [of 1, simplified])

lemma is_f32_quotes: "is_f32 q_bid" "is_f32 q_mid" "is_f32 q_ask"
  by (rule is_f32I [of _ 16384819 "- 13"], simp_all add: q_bid_def)
    (rule is_f32I [of _ 16385638 "- 13"], simp_all add: q_mid_def,
     rule is_f32I [of _ 16386458 "- 13"], simp_all add: q_ask_def)

lemma quotes_nearest: "r32 2000.1 = q_bid" "r32 2000.2 = q_mid" "r32 2000.3 = q_ask"
  by (simp_all add: r32_eval [of 10] rne_def q_bid_def q_mid_def q_ask_def)

lemma quotes_midpoint: "r32 (r32 (q_bid + q_ask) / 2) = q_mid" "q_mid < (q_bid + q_ask) / 2"
  "\<not> overflows (q_bid + q_ask)"
  by (simp_all add: r32_eval [of 11] r32_eval [of 10] rne_def q_bid_def q_mid_def q_ask_def
      overflows_def FLT_MAX_def)

lemma overflow_demo: "0 < FLT_MAX" "overflows (FLT_MAX + FLT_MAX)"
  by (simp_all add: overflows_def FLT_MAX_def r32_eval [of 127] rne_def)

theorem C5_trade_side_witness:
  "(0::real) < 99 \<and> (0::real) < 101 \<and> (99::real) + 101 \<le> FLT_MAX \<and> is_f32 100
   \<and> \<not> overflows (99 + 101)
   \<and> ((99::real) + 101) / 2 \<le> 100
   \<and> r32 (r32 (99 + 101) / 2) = 100
   \<and> DetermineTradeSide_FIXED 100 99 101 101 = CHR ''B''
   \<and> (99::real) < 100 \<and> DetermineTradeSide_FIXED 99 99 101 101 = CHR ''S''
   \<and> (99::real) \<le> 101 \<and> DetermineTradeSide_FIXED 101 99 101 0 = CHR ''B''
   \<and> (98::real) < 99 \<and> DetermineTradeSide_FIXED 98 99 101 0 = CHR ''S''
   \<and> DetermineTradeSide_FIXED 5 0 0 10 = side_char (spec_Classify 5 0 0 10)
   \<and> side_char (spec_Classify 5 0 0 10) = CHR ''S''
   \<and> is_f32 101 \<and> r32 (101 - epsilon) \<le> 101
   \<and> DetermineTradeSide_COMPLETE 101 99 101 0 = CHR ''B''
   \<and> (99::real) < r32 (101 - epsilon) \<and> is_f32 99 \<and> (99::real) \<le> r32 (99 + epsilon)
   \<and> DetermineTradeSide_COMPLETE 99 99 101 0 = CHR ''S''
   \<and> r32 (99 + epsilon) < 100 \<and> 100 < r32 (101 - epsilon)
   \<and> DetermineTradeSide_COMPLETE 100 99 101 101 = CHR ''S''
   \<and> 0 < FLT_MAX \<and> overflows (FLT_MAX + FLT_MAX)
   \<and> DetermineTradeSide_FIXED FLT_MAX FLT_MAX FLT_MAX 0 = CHR ''S''"
proof -
  have fo: "DetermineTradeSide_FIXED FLT_MAX FLT_MAX FLT_MAX 0 = CHR ''S''"
    using C5_trade_side [of FLT_MAX FLT_MAX FLT_MAX 0] overflow_demo by simp
  have m: "(99::real) + 101 \<le> FLT_MAX" by (simp add: FLT_MAX_def)
  have r: "r32 (r32 (99 + 101) / 2) = 100"
    using is_f32_demo by (simp add: is_f32_r32)
  have o: "\<not> overflows (99 + 101)"
    using is_f32_demo by (simp add: is_f32_not_overflows)
  have fb: "DetermineTradeSide_FIXED 100 99 101 101 = CHR ''B''"
    using C5_trade_side [of 99 101 100 101] m is_f32_demo
    by (simp add: is_f32_r32 is_f32_not_overflows)
  have fs: "DetermineTradeSide_FIXED 99 99 101 101 = CHR ''S''"
    using C5_trade_side [of 99 101 99 101 100] is_f32_demo
    by (simp add: is_f32_r32 is_f32_not_overflows)
  have fa: "DetermineTradeSide_FIXED 101 99 101 0 = CHR ''B''"
    using C5_trade_side [of 99 101 101 0] m is_f32_demo
    by (simp add: is_f32_r32 is_f32_not_overflows)
  have fl: "DetermineTradeSide_FIXED 98 99 101 0 = CHR ''S''"
    using C5_trade_side [of 99 101 98 0] is_f32_demo
    by (simp add: is_f32_r32 is_f32_not_overflows)
  have fn: "DetermineTradeSide_FIXED 5 0 0 10 = side_char (spec_Classify 5 0 0 10)"
    using C5_trade_side [of 0 0 5 10] by (simp add: is_f32_r32)
  have cb: "DetermineTradeSide_COMPLETE 101 99 101 0 = CHR ''B''"
    using C5_trade_side [of 99 101 101 0] is_f32_demo by (simp add: is_f32_r32)
  have cs: "DetermineTradeSide_COMPLETE 99 99 101 0 = CHR ''S''"
    using C5_trade_side [of 99 101 99 0] is_f32_demo by (simp add: r32_numerals is_f32_r32)
  have ci: "DetermineTradeSide_COMPLETE 100 99 101 101 = CHR ''S''"
    using C5_trade_side [of 99 101 100 101] is_f32_demo by (simp add: r32_numerals is_f32_r32)
  show ?thesis
    using m r o fb fs fa fl fn cb cs ci fo overflow_demo is_f32_demo
    by (simp add: r32_numerals spec_Classify_def side_char_def)
qed

text \<open>
  The claim as stated fails in the COMPLETE variant: at the midpoint of positive quotes the
  result follows the last price or is unknown, and without quotes every positive price is
  a buy. It fails in the FIXED variant on crossed quotes, and on the quotes 2000.1 and
  2000.3 at the price 2000.2, all three rounded to single precision: the price is below
  the exact midpoint of the two quotes and equal to the midpoint the source computes.
\<close>

theorem C5_midpoint_not_buy:
  "side_char (spec_Classify 100 99 101 101) = CHR ''B''
   \<and> DetermineTradeSide_COMPLETE 100 99 101 101 = CHR ''S''
   \<and> side_char (spec_Classify 100 99 101 100) = CHR ''B''
   \<and> DetermineTradeSide_COMPLETE 100 99 101 100 = CHR ''U''
   \<and> side_char (spec_Classify 5 0 0 10) = CHR ''S''
   \<and> DetermineTradeSide_COMPLETE 5 0 0 10 = CHR ''B''
   \<and> side_char (spec_Classify 3 10 2 0) = CHR ''B''
   \<and> DetermineTradeSide_FIXED 3 10 2 0 = CHR ''S''
   \<and> is_f32 q_bid \<and> is_f32 q_mid \<and> is_f32 q_ask \<and> q_bid < q_mid \<and> q_mid < q_ask
   \<and> side_char (spec_Classify q_mid q_bid q_ask 0) = CHR ''S''
   \<and> DetermineTradeSide_FIXED q_mid q_bid q_ask 0 = CHR ''B''"
proof -
  have s: "side_char (spec_Classify 100 99 101 101) = CHR ''B''"
    "side_char (spec_Classify 100 99 101 100) = CHR ''B''"
    "side_char (spec_Classify 5 0 0 10) = CHR ''S''"
    "side_char (spec_Classify 3 10 2 0) = CHR ''B''"
    by (simp_all add: spec_Classify_def side_char_def)
  have c: "DetermineTradeSide_COMPLETE 100 99 101 101 = CHR ''S''"
    "DetermineTradeSide_COMPLETE 100 99 101 100 = CHR ''U''"
    using is_f32_demo
    by (simp_all add: DetermineTradeSide_COMPLETE_def Let_def r32_numerals is_f32_r32)
  have c0: "DetermineTradeSide_COMPLETE 5 0 0 10 = CHR ''B''"
    by (simp add: DetermineTradeSide_COMPLETE_def Let_def r32_numerals del: diff_0)
  have f: "DetermineTradeSide_FIXED 3 10 2 0 = CHR ''S''"
    using is_f32_demo
    by (simp add: DetermineTradeSide_FIXED_def Let_def is_f32_r32 is_f32_not_overflows)
  have q: "q_bid < q_mid" "q_mid < q_ask" "0 < q_bid" "0 < q_ask"
    by (simp_all add: q_bid_def q_mid_def q_ask_def)
  have qs: "side_char (spec_Classify q_mid q_bid q_ask 0) = CHR ''S''"
    using q quotes_midpoint(2) by (simp add: spec_Classify_def side_char_def)
  have qf: "DetermineTradeSide_FIXED q_mid q_bid q_ask 0 = CHR ''B''"
    using q by (simp add: DetermineTradeSide_FIXED_def Let_def quotes_midpoint)
  show ?thesis
    using s c c0 f q qs qf is_f32_quotes by simp
qed

section \<open>Tick export\<close>

lemma word_not_gt0: "\<not> 0 < (w::'a::len word) \<longleftrightarrow> w = 0"
  by (simp add: word_gt_0)

lemma r32_literals: "r32 (1 / 10) = 13421773 / 134217728" "r32 (2 / 5) = 13421773 / 33554432"
  by (simp_all add: r32_eval [of "- 4"] r32_eval [of "- 2"] rne_def)

text \<open>
  Two places where the rounding shows: a move of half a point at a tick size of \<^verbatim>\<open>0.1f\<close> is
  estimated at 50 contracts, where exact arithmetic gives 49, and the bid size of
  10485762 contracts is 4194305, where exact arithmetic gives 4194304.
\<close>

lemma estimate_rounds: "to_u32 (r32 (r32 (0.5 / r32 0.1) * 10)) = 50"
  by (simp add: r32_literals r32_eval [of 2] r32_eval [of 5] rne_def to_u32_def)

lemma bid_size_rounds: "to_u32 (r32 (r32 (real (unat (10485762::u32))) * r32 0.4)) = 4194305"
  by (simp add: r32_literals r32_eval [of 23] r32_eval [of 22] rne_def to_u32_def)

lemma new_trade_size: "size_tk (snd (new_trade D u n sc av g)) = av"
  by (simp add: new_trade_def Let_def)

lemma FIXED_emits_iff:
  "snd (ExportTickData_FIXED u n sc g) \<noteq> None \<longleftrightarrow>
     (Volume sc (Index sc) > 0 \<and> to_u32 (Volume sc (Index sc)) > 0 \<and>
      (Close sc (Index sc) \<noteq> g_LastPrice g \<or> g_LastPrice g = 0))"
  by (simp add: ExportTickData_FIXED_def Let_def)

lemma COMPLETE_emits_iff:
  "snd (ExportTickData_COMPLETE u n sc g) \<noteq> None \<longleftrightarrow>
     (Close sc (Index sc) \<noteq> g_LastPrice g \<or> ActualVolume_COMPLETE sc g > 0 \<or> g_LastPrice g = 0)"
  by (simp add: ExportTickData_COMPLETE_def Let_def)

lemma COMPLETE_emitted_size:
  "snd (ExportTickData_COMPLETE u n sc g) = Some t \<Longrightarrow> size_tk t = ActualVolume_COMPLETE sc g"
  by (auto simp add: ExportTickData_COMPLETE_def Let_def new_trade_size split: if_splits)

lemma FIXED_emitted_size:
  "snd (ExportTickData_FIXED u n sc g) = Some t \<Longrightarrow> size_tk t = to_u32 (Volume sc (Index sc))"
  by (auto simp add: ExportTickData_FIXED_def Let_def new_trade_size split: if_splits)

lemma COMPLETE_skip_frame:
  "snd (ExportTickData_COMPLETE u n sc g) = None \<Longrightarrow> fst (ExportTickData_COMPLETE u n sc g) = g"
  by (auto simp add: ExportTickData_COMPLETE_def Let_def word_not_gt0 split: if_splits)

lemma FIXED_skip_frame:
  "snd (ExportTickData_FIXED u n sc g) = None \<Longrightarrow>
   fst (ExportTickData_FIXED u n sc g) =
     g\<lparr>g_CumulativeVolume := g_CumulativeVolume g +
          (if Volume sc (Index sc) > 0 then to_u32 (Volume sc (Index sc)) else 0)\<rparr>"
  by (auto simp add: ExportTickData_FIXED_def Let_def split: if_splits)

lemma COMPLETE_emitted_push:
  "snd (ExportTickData_COMPLETE u n sc g) = Some t \<Longrightarrow>
     g_TickBuffer (fst (ExportTickData_COMPLETE u n sc g)) = AddTick t (g_TickBuffer g)"
  by (auto simp add: ExportTickData_COMPLETE_def Let_def new_trade_def split: if_splits)

lemma FIXED_emitted_push:
  "snd (ExportTickData_FIXED u n sc g) = Some t \<Longrightarrow>
     g_TickBuffer (fst (ExportTickData_FIXED u n sc g)) = AddTick t (g_TickBuffer g)"
  by (auto simp add: ExportTickData_FIXED_def Let_def new_trade_def split: if_splits)

text \<open>
  C3 (amended). In the COMPLETE variant a tick is emitted if and only if the price differs
  from the last price, or the tick's volume (the host's volume, or its estimate when the
  host reports none) is greater than zero, or the last price is still zero (first
  observation). In the FIXED variant, which uses the host's volume only, a tick is emitted
  if and only if the host's volume is positive (and is at least one after truncation) and
  the price differs from the last price or the last price is still zero. In both variants
  an emitted tick carries that volume and is pushed into the buffer, and a snapshot that
  emits no tick leaves the buffer, and with it the sequence counter, unchanged.
\<close>

theorem C3_new_trade_detection:
  "(snd (ExportTickData_COMPLETE u n sc g) \<noteq> None \<longleftrightarrow>
      (Close sc (Index sc) \<noteq> g_LastPrice g \<or> 0 < ActualVolume_COMPLETE sc g \<or> g_LastPrice g = 0))
   \<and> (snd (ExportTickData_FIXED u n sc g) \<noteq> None \<longleftrightarrow>
      (0 < Volume sc (Index sc) \<and> 0 < to_u32 (Volume sc (Index sc)) \<and>
       (Close sc (Index sc) \<noteq> g_LastPrice g \<or> g_LastPrice g = 0)))
   \<and> (\<forall>t. snd (ExportTickData_COMPLETE u n sc g) = Some t \<longrightarrow>
          size_tk t = ActualVolume_COMPLETE sc g \<and>
          g_TickBuffer (fst (ExportTickData_COMPLETE u n sc g)) = AddTick t (g_TickBuffer g))
   \<and> (\<forall>t. snd (ExportTickData_FIXED u n sc g) = Some t \<longrightarrow>
          size_tk t = to_u32 (Volume sc (Index sc)) \<and>
          g_TickBuffer (fst (ExportTickData_FIXED u n sc g)) = AddTick t (g_TickBuffer g))
   \<and> (snd (ExportTickData_COMPLETE u n sc g) = None \<longrightarrow>
          g_TickBuffer (fst (ExportTickData_COMPLETE u n sc g)) = g_TickBuffer g)
   \<and> (snd (ExportTickData_FIXED u n sc g) = None \<longrightarrow>
          g_TickBuffer (fst (ExportTickData_FIXED u n sc g)) = g_TickBuffer g)"
proof -
  have a: "snd (ExportTickData_COMPLETE u n sc g) = None \<longrightarrow>
          g_TickBuffer (fst (ExportTickData_COMPLETE u n sc g)) = g_TickBuffer g"
    using COMPLETE_skip_frame [of u n sc g] by simp
  have b: "snd (ExportTickData_FIXED u n sc g) = None \<longrightarrow>
          g_TickBuffer (fst (ExportTickData_FIXED u n sc g)) = g_TickBuffer g"
    using FIXED_skip_frame [of u n sc g] by simp
  show ?thesis
    using a b COMPLETE_emits_iff [of u n sc g] FIXED_emits_iff [of u n sc g]
      COMPLETE_emitted_size [of u n sc g] FIXED_emitted_size [of u n sc g]
      COMPLETE_emitted_push [of u n sc g] FIXED_emitted_push [of u n sc g]
    by blast
qed

lemma demo_fields:
  "Close (sc_demo p v) (Index (sc_demo p v)) = p"
  "Volume (sc_demo p v) (Index (sc_demo p v)) = v"
  "g_LastPrice (g_demo l) = l"
  "g_CumulativeVolume (g_demo l) = 0"
  "g_TickBuffer (g_demo l) = TickBuffer_init 20000"
  by (simp_all add: sc_demo_def g_demo_def Globals_init_def)

lemma to_u32_5: "to_u32 5 = 5"
  by (simp add: to_u32_def)

lemma ActualVolume_COMPLETE_demo:
  "ActualVolume_COMPLETE (sc_demo 100 0) (g_demo 100) = 0"
  "ActualVolume_COMPLETE (sc_demo 101 5) (g_demo 100) = 5"
  by (simp_all add: ActualVolume_COMPLETE_def EstimateVolume_def demo_fields to_u32_5)

theorem C3_new_trade_detection_witness:
  "snd (ExportTickData_COMPLETE zero_tick 1 (sc_demo 100 0) (g_demo 100)) = None
   \<and> g_TickBuffer (fst (ExportTickData_COMPLETE zero_tick 1 (sc_demo 100 0) (g_demo 100)))
       = g_TickBuffer (g_demo 100)
   \<and> snd (ExportTickData_FIXED zero_tick 1 (sc_demo 100 0) (g_demo 100)) = None
   \<and> g_TickBuffer (fst (ExportTickData_FIXED zero_tick 1 (sc_demo 100 0) (g_demo 100)))
       = g_TickBuffer (g_demo 100)
   \<and> map_option size_tk (snd (ExportTickData_COMPLETE zero_tick 1 (sc_demo 101 5) (g_demo 100)))
       = Some 5
   \<and> map_option size_tk (snd (ExportTickData_FIXED zero_tick 1 (sc_demo 101 5) (g_demo 100)))
       = Some 5
   \<and> map_option (\<lambda>t. AddTick t (g_TickBuffer (g_demo 100)))
        (snd (ExportTickData_COMPLETE zero_tick 1 (sc_demo 101 5) (g_demo 100)))
       = Some (g_TickBuffer (fst (ExportTickData_COMPLETE zero_tick 1 (sc_demo 101 5) (g_demo 100))))
   \<and> map_option (\<lambda>t. AddTick t (g_TickBuffer (g_demo 100)))
        (snd (ExportTickData_FIXED zero_tick 1 (sc_demo 101 5) (g_demo 100)))
       = Some (g_TickBuffer (fst (ExportTickData_FIXED zero_tick 1 (sc_demo 101 5) (g_demo 100))))"
proof -
  note skip = C3_new_trade_detection [of zero_tick 1 "sc_demo 100 0" "g_demo 100"]
  note emit = C3_new_trade_detection [of zero_tick 1 "sc_demo 101 5" "g_demo 100"]
  have s: "snd (ExportTickData_COMPLETE zero_tick 1 (sc_demo 100 0) (g_demo 100)) = None
     \<and> g_TickBuffer (fst (ExportTickData_COMPLETE zero_tick 1 (sc_demo 100 0) (g_demo 100)))
         = g_TickBuffer (g_demo 100)
     \<and> snd (ExportTickData_FIXED zero_tick 1 (sc_demo 100 0) (g_demo 100)) = None
     \<and> g_TickBuffer (fst (ExportTickData_FIXED zero_tick 1 (sc_demo 100 0) (g_demo 100)))
         = g_TickBuffer (g_demo 100)"
    using skip by (simp add: demo_fields ActualVolume_COMPLETE_demo)
  obtain tc where tc: "snd (ExportTickData_COMPLETE zero_tick 1 (sc_demo 101 5) (g_demo 100)) = Some tc"
    using emit by (auto simp add: demo_fields)
  obtain tf where tf: "snd (ExportTickData_FIXED zero_tick 1 (sc_demo 101 5) (g_demo 100)) = Some tf"
    using emit by (auto simp add: demo_fields to_u32_5)
  have c: "size_tk tc = 5
     \<and> g_TickBuffer (fst (ExportTickData_COMPLETE zero_tick 1 (sc_demo 101 5) (g_demo 100)))
         = AddTick tc (g_TickBuffer (g_demo 100))"
    using emit tc by (simp add: demo_fields ActualVolume_COMPLETE_demo)
  have f: "size_tk tf = 5
     \<and> g_TickBuffer (fst (ExportTickData_FIXED zero_tick 1 (sc_demo 101 5) (g_demo 100)))
         = AddTick tf (g_TickBuffer (g_demo 100))"
    using emit tf by (simp add: demo_fields to_u32_5)
  show ?thesis
    using s c f by (simp add: tc tf)
qed

text \<open>
  The claim as stated fails in the FIXED variant: a price change with no host volume emits
  no tick, and neither does host volume at an unchanged price.
\<close>

theorem C3_FIXED_needs_volume_and_change:
  "Close (sc_demo 101 0) (Index (sc_demo 101 0)) \<noteq> g_LastPrice (g_demo 100)
   \<and> snd (ExportTickData_FIXED zero_tick 1 (sc_demo 101 0) (g_demo 100)) = None
   \<and> 0 < to_u32 (Volume (sc_demo 100 5) (Index (sc_demo 100 5)))
   \<and> snd (ExportTickData_FIXED zero_tick 1 (sc_demo 100 5) (g_demo 100)) = None"
  by (simp add: ExportTickData_FIXED_def Let_def demo_fields to_u32_5)

lemma FIXED_skip_keeps_rest:
  assumes "snd (ExportTickData_FIXED u n sc g) = None"
  shows "g_LastPrice (fst (ExportTickData_FIXED u n sc g)) = g_LastPrice g"
    "g_TickBuffer (fst (ExportTickData_FIXED u n sc g)) = g_TickBuffer g"
    "g_TotalTrades (fst (ExportTickData_FIXED u n sc g)) = g_TotalTrades g"
    "g_LastUpdateTime (fst (ExportTickData_FIXED u n sc g)) = g_LastUpdateTime g"
  using FIXED_skip_frame [OF assms] by simp_all

lemma FIXED_skip_no_volume:
  assumes "snd (ExportTickData_FIXED u n sc g) = None" "to_u32 (Volume sc (Index sc)) = 0"
  shows "fst (ExportTickData_FIXED u n sc g) = g"
  using FIXED_skip_frame [OF assms(1)] assms(2) by simp

text \<open>
  C4: a snapshot that emits no tick leaves the last price, the cumulative volume and the
  tick buffer as they were. There is no error path in \<^verbatim>\<open>ExportTickData\<close>. COMPLETE keeps
  all its state on such a snapshot (\<open>COMPLETE_skip_frame\<close>), and so does FIXED when it
  returns early for want of volume; the last price and the buffer are kept by FIXED on
  every such snapshot (\<open>FIXED_skip_keeps_rest\<close>). But FIXED adds the host's volume to the
  cumulative volume before it decides whether there is a trade (\<open>FIXED_skip_frame\<close>): at
  the failing input, a snapshot of volume 5 at the unchanged price 100, no tick is emitted
  and the cumulative volume goes from 0 to 5.
\<close>

theorem C4_FIXED_skip_adds_volume:
  "snd (ExportTickData_FIXED zero_tick 1 (sc_demo 100 5) (g_demo 100)) = None
   \<and> g_CumulativeVolume (g_demo 100) = 0
   \<and> g_CumulativeVolume (fst (ExportTickData_FIXED zero_tick 1 (sc_demo 100 5) (g_demo 100))) = 5"
  by (simp add: ExportTickData_FIXED_def Let_def demo_fields to_u32_5)

theorem C4_FIXED_skip_adds_volume_witness:
  "snd (ExportTickData_FIXED zero_tick 1 (sc_demo 100 5) (g_demo 100)) = None
   \<and> fst (ExportTickData_FIXED zero_tick 1 (sc_demo 100 5) (g_demo 100)) \<noteq> g_demo 100"
  using C4_FIXED_skip_adds_volume by auto

section \<open>Windowed VWAP\<close>













lemma tick_f_price: "r32 100.03 = price tick_f" "is_f32 (price tick_f)"
  by (simp add: tick_f_def r32_eval [of 6] rne_def)
    (rule is_f32I [of _ 13111132 "- 17"], simp_all add: tick_f_def)


section \<open>Bridge: validation of market data\<close>

lemma isValidData_iff:
  "\<not> isValidData sc \<longleftrightarrow>
     spec_InvalidSnapshot 50 sc \<or> Close sc (Index sc) < 0.01 \<or> Volume sc (Index sc) < 0"
  by (auto simp: isValidData_def spec_InvalidSnapshot_def Let_def MIN_VALID_PRICE_def
      MAX_PRICE_CHANGE_PERCENT_def)

lemma send_market_data_invalid:
  assumes "\<not> isValidData sc" "word_of_int i \<le> t - lastUpdate st"
  shows "send_market_data oc t i sc st mdf =
           ((st\<lparr>lastUpdate := t, validationErrors := validationErrors st + 1\<rparr>, mdf), True)"
  using assms by (simp add: send_market_data_def Let_def)

text \<open>
  C9 (amended). The Bridge rejects a snapshot if and only if the price is below 0.01 (which
  includes every price that is zero or negative), or the volume is negative, or the high
  is below the low, or the price lies outside the range from low to high, or there is a
  previous bar with a positive close from which the price differs by more than 50 percent
  of that close; the threshold is a constant of the source. When a due update finds the
  snapshot rejected, the market data file is not written and the packet counter keeps its
  value; the time of the last update is set, the counter of validation errors grows by
  one, and the study function returns.
\<close>

theorem C9_invalid_snapshot:
  "(\<not> isValidData sc \<longleftrightarrow>
      spec_InvalidSnapshot 50 sc \<or> Close sc (Index sc) < 0.01 \<or> Volume sc (Index sc) < 0)
   \<and> (\<not> isValidData sc \<and> word_of_int i \<le> t - lastUpdate st \<longrightarrow>
        send_market_data oc t i sc st mdf =
          ((st\<lparr>lastUpdate := t, validationErrors := validationErrors st + 1\<rparr>, mdf), True))"
  using isValidData_iff [of sc] send_market_data_invalid [of sc i t st oc mdf]
  by blast

theorem C9_invalid_snapshot_witness:
  "spec_InvalidSnapshot 50 (sc_bar 100 200 1 99 201)
   \<and> \<not> isValidData (sc_bar 100 200 1 99 201)
   \<and> (word_of_int 1000 :: u32) \<le> 5000 - lastUpdate st_demo
   \<and> send_market_data direct_write 5000 1000 (sc_bar 100 200 1 99 201) st_demo None =
        ((st_demo\<lparr>lastUpdate := 5000, validationErrors := validationErrors st_demo + 1\<rparr>, None), True)
   \<and> isValidData (sc_bar 100 120 1 99 121)"
proof -
  have a: "spec_InvalidSnapshot 50 (sc_bar 100 200 1 99 201)"
    by (simp add: spec_InvalidSnapshot_def sc_bar_def)
  have b: "(word_of_int 1000 :: u32) \<le> 5000 - lastUpdate st_demo"
    by (simp add: st_demo_def)
  have c: "\<not> spec_InvalidSnapshot 50 (sc_bar 100 120 1 99 121)"
    by (simp add: spec_InvalidSnapshot_def sc_bar_def)
  have d: "\<not> Close (sc_bar 100 120 1 99 121) (Index (sc_bar 100 120 1 99 121)) < 0.01"
    "\<not> Volume (sc_bar 100 120 1 99 121) (Index (sc_bar 100 120 1 99 121)) < 0"
    by (simp_all add: sc_bar_def)
  show ?thesis
    using a b c d
      C9_invalid_snapshot [of "sc_bar 100 200 1 99 201" 1000 5000 st_demo direct_write None]
      C9_invalid_snapshot [of "sc_bar 100 120 1 99 121"]
    by simp
qed

text \<open>
  The claim as stated fails: a positive price below 0.01 inside its range, and a negative
  volume, are rejected although none of the four conditions of the claim holds; and a
  rejection changes two fields of the study's state.
\<close>

theorem C9_rejects_more:
  "\<not> spec_InvalidSnapshot 50 (sc_bar 0.005 0.005 1 0.001 0.009)
   \<and> \<not> isValidData (sc_bar 0.005 0.005 1 0.001 0.009)
   \<and> \<not> spec_InvalidSnapshot 50 (sc_bar 100 100 (- 1) 99 101)
   \<and> \<not> isValidData (sc_bar 100 100 (- 1) 99 101)
   \<and> validationErrors (fst (fst (send_market_data direct_write 5000 1000
        (sc_bar 100 100 (- 1) 99 101) st_demo None))) \<noteq> validationErrors st_demo"
  by (simp add: isValidData_def spec_InvalidSnapshot_def sc_bar_def Let_def MIN_VALID_PRICE_def
      send_market_data_def st_demo_def)

section \<open>Bridge and FIXED: the order handed to the host\<close>

lemmas parse_defs = ExtractString_def ExtractInt_def ExtractFloat_def find_def find_first_of_def
  substr_def bind_exn_def catch_all_def dq_def stoi_def int_prefix_def isspace_def isdigit_def
  dec_value_def digit_val_def field_text_def number_text_def Let_def

lemma executeTrade_buy:
  assumes "trade_checks_pass sc cmd" "action cmd = ''BUY''"
  shows "executeTrade host sc cmd fp =
           (order_result host (BuyEntry (bridge_order cmd)), Ask sc, [BuyEntry (bridge_order cmd)])"
  using assms
  by (auto simp: executeTrade_def trade_checks_pass_def bridge_order_def new_order_def Let_def)

lemma executeTrade_sell:
  assumes "trade_checks_pass sc cmd" "action cmd = ''SELL''"
  shows "executeTrade host sc cmd fp =
           (order_result host (SellEntry (bridge_order cmd)), Bid sc, [SellEntry (bridge_order cmd)])"
  using assms
  by (auto simp: executeTrade_def trade_checks_pass_def bridge_order_def new_order_def Let_def)

lemma executeTrade_rejects:
  assumes "\<not> trade_checks_pass sc cmd"
  shows "fst (executeTrade host sc cmd fp) = 0 \<and> snd (snd (executeTrade host sc cmd fp)) = []"
  using assms
  by (auto simp: executeTrade_def trade_checks_pass_def Let_def)

lemma bridge_order_fields:
  "OrderType (bridge_order cmd) = SCT_ORDERTYPE_MARKET"
  "OrderQuantity (bridge_order cmd) = quantity cmd"
  "order_type cmd = ''LIMIT'' \<Longrightarrow> 0 < cmd_price cmd \<Longrightarrow> Price1 (bridge_order cmd) = cmd_price cmd"
  by (simp_all add: bridge_order_def)

lemma ExecuteTrade_FIXED_submits:
  assumes "0 < qty" "0 < prc \<or> CompareNoCase orderType ''MARKET'' = 0"
    and "CompareNoCase sd ''BUY'' = 0 \<or> CompareNoCase sd ''SELL'' = 0"
  shows "\<exists>ord. snd (ExecuteTrade_FIXED host resp_ok now smb sd qty prc orderType fs) = [SubmitNewOrder ord]
           \<and> OrderQuantity ord = qty
           \<and> BuySell ord = (if CompareNoCase sd ''BUY'' = 0 then BSE_BUY else BSE_SELL)
           \<and> (if CompareNoCase orderType ''LIMIT'' = 0
               then OrderType ord = SCT_ORDERTYPE_LIMIT \<and> Price1 ord = prc
               else OrderType ord = SCT_ORDERTYPE_MARKET)"
  using assms
  by (auto simp: ExecuteTrade_FIXED_def Let_def)

lemma processTradeCommands_filled:
  assumes "trade_commands_file fs = Some ftext" "filter (\<lambda>c. c \<noteq> CHR 0x0A) ftext \<noteq> []"
    and "parseTradeCommand atof (filter (\<lambda>c. c \<noteq> CHR 0x0A) ftext) = Inr (True, cmd)"
    and "trade_checks_pass sc cmd" "action cmd = ''BUY''"
    and "0 < order_result host (BuyEntry (bridge_order cmd))"
  shows "trade_responses (fst (snd (processTradeCommands atof host True sc fs)))
           = trade_responses fs @
             [\<lparr>r_command_id = command_id cmd, r_status = ''FILLED'',
               r_message = ''Trade executed successfully'', r_fill_price = Some (Ask sc)\<rparr>]"
  using assms
  by (simp add: processTradeCommands_def Let_def executeTrade_buy write_response_def
      createTradeResponse_def trade_checks_pass_def)

lemma executeTrade_other:
  assumes "trade_checks_pass sc cmd" "action cmd \<noteq> ''BUY''" "action cmd \<noteq> ''SELL''"
  shows "executeTrade host sc cmd fp =
           (0, if order_type cmd = ''LIMIT'' \<and> 0 < cmd_price cmd then cmd_price cmd else Bid sc, [])"
  using assms
  by (auto simp: executeTrade_def trade_checks_pass_def Let_def)

lemma processTradeCommands_filled_sell:
  assumes "trade_commands_file fs = Some ftext" "filter (\<lambda>c. c \<noteq> CHR 0x0A) ftext \<noteq> []"
    and "parseTradeCommand atof (filter (\<lambda>c. c \<noteq> CHR 0x0A) ftext) = Inr (True, cmd)"
    and "trade_checks_pass sc cmd" "action cmd = ''SELL''"
    and "0 < order_result host (SellEntry (bridge_order cmd))"
  shows "trade_responses (fst (snd (processTradeCommands atof host True sc fs)))
           = trade_responses fs @
             [\<lparr>r_command_id = command_id cmd, r_status = ''FILLED'',
               r_message = ''Trade executed successfully'', r_fill_price = Some (Bid sc)\<rparr>]"
  using assms
  by (simp add: processTradeCommands_def Let_def executeTrade_sell write_response_def
      createTradeResponse_def trade_checks_pass_def)

lemma processTradeCommands_failed:
  assumes "trade_commands_file fs = Some ftext" "filter (\<lambda>c. c \<noteq> CHR 0x0A) ftext \<noteq> []"
    and "parseTradeCommand atof (filter (\<lambda>c. c \<noteq> CHR 0x0A) ftext) = Inr (True, cmd)"
    and "fst (executeTrade host sc cmd 0) \<le> 0"
  shows "trade_responses (fst (snd (processTradeCommands atof host True sc fs)))
           = trade_responses fs @
             [\<lparr>r_command_id = command_id cmd, r_status = ''REJECTED'',
               r_message = ''Trade execution failed'', r_fill_price = None\<rparr>]"
  using assms
  by (simp add: processTradeCommands_def Let_def write_response_def createTradeResponse_def)

text \<open>
  C8 (amended). In the Bridge, a command that passes the checks of \<^verbatim>\<open>executeTrade\<close> and
  whose action is exactly BUY is handed to the host through \<^verbatim>\<open>BuyEntry\<close> as a market order
  of the commanded quantity, whatever its order type, with the current ask as its fill
  price; one whose action is exactly SELL through \<^verbatim>\<open>SellEntry\<close>, with the current bid. A
  limit command with a positive price leaves that price in the order, which is a market
  order all the same, and its fill price is the ask or the bid. A command that passes the
  checks with any other action, or that fails them, is not handed to the host, and
  \<^verbatim>\<open>executeTrade\<close> returns 0. The response to a BUY or SELL for which the host returns a
  positive order identifier is FILLED with the ask or the bid as its fill price; when
  \<^verbatim>\<open>executeTrade\<close> returns no positive identifier the response is REJECTED without a fill
  price. In FIXED, a command with a positive quantity, with a positive price unless its
  order type is MARKET, and with the side BUY or SELL, all in any case of letters, is
  submitted as a limit order with the commanded price when its order type is LIMIT and as
  a market order otherwise; a response of FIXED has no fill price.
\<close>

theorem C8_order_construction:
  "(trade_checks_pass sc cmd \<and> action cmd = ''BUY'' \<longrightarrow>
      executeTrade host sc cmd fp =
        (order_result host (BuyEntry (bridge_order cmd)), Ask sc, [BuyEntry (bridge_order cmd)]))
   \<and> (trade_checks_pass sc cmd \<and> action cmd = ''SELL'' \<longrightarrow>
      executeTrade host sc cmd fp =
        (order_result host (SellEntry (bridge_order cmd)), Bid sc, [SellEntry (bridge_order cmd)]))
   \<and> (trade_checks_pass sc cmd \<and> action cmd \<noteq> ''BUY'' \<and> action cmd \<noteq> ''SELL'' \<longrightarrow>
      executeTrade host sc cmd fp =
        (0, if order_type cmd = ''LIMIT'' \<and> 0 < cmd_price cmd then cmd_price cmd else Bid sc, []))
   \<and> (\<not> trade_checks_pass sc cmd \<longrightarrow>
      fst (executeTrade host sc cmd fp) = 0 \<and> snd (snd (executeTrade host sc cmd fp)) = [])
   \<and> OrderType (bridge_order cmd) = SCT_ORDERTYPE_MARKET
   \<and> OrderQuantity (bridge_order cmd) = quantity cmd
   \<and> (order_type cmd = ''LIMIT'' \<and> 0 < cmd_price cmd \<longrightarrow> Price1 (bridge_order cmd) = cmd_price cmd)
   \<and> (trade_commands_file fs = Some ftext \<and> filter (\<lambda>c. c \<noteq> CHR 0x0A) ftext \<noteq> []
        \<and> parseTradeCommand atof (filter (\<lambda>c. c \<noteq> CHR 0x0A) ftext) = Inr (True, cmd)
        \<and> trade_checks_pass sc cmd \<and> action cmd = ''BUY''
        \<and> 0 < order_result host (BuyEntry (bridge_order cmd)) \<longrightarrow>
      trade_responses (fst (snd (processTradeCommands atof host True sc fs)))
        = trade_responses fs @
          [\<lparr>r_command_id = command_id cmd, r_status = ''FILLED'',
            r_message = ''Trade executed successfully'', r_fill_price = Some (Ask sc)\<rparr>])
   \<and> (trade_commands_file fs = Some ftext \<and> filter (\<lambda>c. c \<noteq> CHR 0x0A) ftext \<noteq> []
        \<and> parseTradeCommand atof (filter (\<lambda>c. c \<noteq> CHR 0x0A) ftext) = Inr (True, cmd)
        \<and> trade_checks_pass sc cmd \<and> action cmd = ''SELL''
        \<and> 0 < order_result host (SellEntry (bridge_order cmd)) \<longrightarrow>
      trade_responses (fst (snd (processTradeCommands atof host True sc fs)))
        = trade_responses fs @
          [\<lparr>r_command_id = command_id cmd, r_status = ''FILLED'',
            r_message = ''Trade executed successfully'', r_fill_price = Some (Bid sc)\<rparr>])
   \<and> (trade_commands_file fs = Some ftext \<and> filter (\<lambda>c. c \<noteq> CHR 0x0A) ftext \<noteq> []
        \<and> parseTradeCommand atof (filter (\<lambda>c. c \<noteq> CHR 0x0A) ftext) = Inr (True, cmd)
        \<and> fst (executeTrade host sc cmd 0) \<le> 0 \<longrightarrow>
      trade_responses (fst (snd (processTradeCommands atof host True sc fs)))
        = trade_responses fs @
          [\<lparr>r_command_id = command_id cmd, r_status = ''REJECTED'',
            r_message = ''Trade execution failed'', r_fill_price = None\<rparr>])
   \<and> (0 < qty \<and> (0 < prc \<or> CompareNoCase orderType ''MARKET'' = 0)
        \<and> (CompareNoCase sd ''BUY'' = 0 \<or> CompareNoCase sd ''SELL'' = 0) \<longrightarrow>
      (\<exists>ord. snd (ExecuteTrade_FIXED host resp_ok now smb sd qty prc orderType efs)
                = [SubmitNewOrder ord]
          \<and> OrderQuantity ord = qty
          \<and> BuySell ord = (if CompareNoCase sd ''BUY'' = 0 then BSE_BUY else BSE_SELL)
          \<and> (if CompareNoCase orderType ''LIMIT'' = 0
              then OrderType ord = SCT_ORDERTYPE_LIMIT \<and> Price1 ord = prc
              else OrderType ord = SCT_ORDERTYPE_MARKET)))"
proof -
  have f: "0 < qty \<and> (0 < prc \<or> CompareNoCase orderType ''MARKET'' = 0)
        \<and> (CompareNoCase sd ''BUY'' = 0 \<or> CompareNoCase sd ''SELL'' = 0) \<longrightarrow>
      (\<exists>ord. snd (ExecuteTrade_FIXED host resp_ok now smb sd qty prc orderType efs)
                = [SubmitNewOrder ord]
          \<and> OrderQuantity ord = qty
          \<and> BuySell ord = (if CompareNoCase sd ''BUY'' = 0 then BSE_BUY else BSE_SELL)
          \<and> (if CompareNoCase orderType ''LIMIT'' = 0
              then OrderType ord = SCT_ORDERTYPE_LIMIT \<and> Price1 ord = prc
              else OrderType ord = SCT_ORDERTYPE_MARKET))"
    using ExecuteTrade_FIXED_submits [of qty prc orderType sd host resp_ok now smb efs] by blast
  have r: "trade_commands_file fs = Some ftext \<and> filter (\<lambda>c. c \<noteq> CHR 0x0A) ftext \<noteq> []
        \<and> parseTradeCommand atof (filter (\<lambda>c. c \<noteq> CHR 0x0A) ftext) = Inr (True, cmd)
        \<and> trade_checks_pass sc cmd \<and> action cmd = ''BUY''
        \<and> 0 < order_result host (BuyEntry (bridge_order cmd)) \<longrightarrow>
      trade_responses (fst (snd (processTradeCommands atof host True sc fs)))
        = trade_responses fs @
          [\<lparr>r_command_id = command_id cmd, r_status = ''FILLED'',
            r_message = ''Trade executed successfully'', r_fill_price = Some (Ask sc)\<rparr>]"
    using processTradeCommands_filled [of fs ftext atof cmd sc host] by blast
  have rs: "trade_commands_file fs = Some ftext \<and> filter (\<lambda>c. c \<noteq> CHR 0x0A) ftext \<noteq> []
        \<and> parseTradeCommand atof (filter (\<lambda>c. c \<noteq> CHR 0x0A) ftext) = Inr (True, cmd)
        \<and> trade_checks_pass sc cmd \<and> action cmd = ''SELL''
        \<and> 0 < order_result host (SellEntry (bridge_order cmd)) \<longrightarrow>
      trade_responses (fst (snd (processTradeCommands atof host True sc fs)))
        = trade_responses fs @
          [\<lparr>r_command_id = command_id cmd, r_status = ''FILLED'',
            r_message = ''Trade executed successfully'', r_fill_price = Some (Bid sc)\<rparr>]"
    using processTradeCommands_filled_sell [of fs ftext atof cmd sc host] by blast
  have rf: "trade_commands_file fs = Some ftext \<and> filter (\<lambda>c. c \<noteq> CHR 0x0A) ftext \<noteq> []
        \<and> parseTradeCommand atof (filter (\<lambda>c. c \<noteq> CHR 0x0A) ftext) = Inr (True, cmd)
        \<and> fst (executeTrade host sc cmd 0) \<le> 0 \<longrightarrow>
      trade_responses (fst (snd (processTradeCommands atof host True sc fs)))
        = trade_responses fs @
          [\<lparr>r_command_id = command_id cmd, r_status = ''REJECTED'',
            r_message = ''Trade execution failed'', r_fill_price = None\<rparr>]"
    using processTradeCommands_failed [of fs ftext atof cmd host sc] by blast
  have x: "trade_checks_pass sc cmd \<and> action cmd \<noteq> ''BUY'' \<and> action cmd \<noteq> ''SELL'' \<longrightarrow>
      executeTrade host sc cmd fp =
        (0, if order_type cmd = ''LIMIT'' \<and> 0 < cmd_price cmd then cmd_price cmd else Bid sc, [])"
    using executeTrade_other [of sc cmd host fp] by blast
  show ?thesis
    using f r rs rf x executeTrade_buy [of sc cmd host fp] executeTrade_sell [of sc cmd host fp]
      executeTrade_rejects [of sc cmd host fp] bridge_order_fields [of cmd]
    by blast
qed

lemma checks_demo:
  "trade_checks_pass (sc_bar 100 100 5 99 102) market_buy"
  "trade_checks_pass (sc_bar 100 100 5 99 102) limit_buy"
  by (simp_all add: trade_checks_pass_def sc_bar_def market_buy_def limit_buy_def CompareNoCase_def
      MAX_POSITION_SIZE_def)

lemma bridge_market_buy_parse:
  "parseTradeCommand atof_zero cmd_bridge_market_buy = Inr (True, market_buy)"
  by (simp add: cmd_bridge_market_buy_def parseTradeCommand_def quoted_field_def parse_defs
      atoi_def market_buy_def atof_zero_def)

lemma bridge_market_buy_facts:
  "filter (\<lambda>c. c \<noteq> CHR 0x0A) cmd_bridge_market_buy = cmd_bridge_market_buy"
  "cmd_bridge_market_buy \<noteq> []"
  by (simp_all add: cmd_bridge_market_buy_def)

lemma checks_sell: "trade_checks_pass (sc_bar 100 100 5 99 102) market_sell"
  by (simp add: trade_checks_pass_def sc_bar_def market_sell_def CompareNoCase_def
      MAX_POSITION_SIZE_def)

lemma bridge_market_sell_parse:
  "parseTradeCommand atof_zero cmd_bridge_market_sell = Inr (True, market_sell)"
  by (simp add: cmd_bridge_market_sell_def parseTradeCommand_def quoted_field_def parse_defs
      atoi_def market_sell_def atof_zero_def)

lemma bridge_lower_buy_parse:
  "parseTradeCommand atof_zero cmd_bridge_lower_buy = Inr (True, lower_buy)"
  by (simp add: cmd_bridge_lower_buy_def parseTradeCommand_def quoted_field_def parse_defs
      atoi_def lower_buy_def atof_zero_def)

lemma bridge_text_facts:
  "filter (\<lambda>c. c \<noteq> CHR 0x0A) cmd_bridge_market_sell = cmd_bridge_market_sell"
  "cmd_bridge_market_sell \<noteq> []"
  "filter (\<lambda>c. c \<noteq> CHR 0x0A) cmd_bridge_lower_buy = cmd_bridge_lower_buy"
  "cmd_bridge_lower_buy \<noteq> []"
  by (simp_all add: cmd_bridge_market_sell_def cmd_bridge_lower_buy_def)

lemma checks_lower: "trade_checks_pass (sc_bar 100 100 5 99 102) lower_buy"
  by (simp add: trade_checks_pass_def sc_bar_def lower_buy_def CompareNoCase_def
      MAX_POSITION_SIZE_def)

lemma files_demo:
  "trade_commands_file (no_bridge_files\<lparr>trade_commands_file := Some x\<rparr>) = Some x"
  "trade_responses (no_bridge_files\<lparr>trade_commands_file := Some x\<rparr>) = []"
  by (simp_all add: no_bridge_files_def)

theorem C8_order_construction_witness:
  "trade_checks_pass (sc_bar 100 100 5 99 102) market_buy \<and> action market_buy = ''BUY''
   \<and> executeTrade host_ok (sc_bar 100 100 5 99 102) market_buy 0
        = (42, 101, [BuyEntry (bridge_order market_buy)])
   \<and> OrderType (bridge_order market_buy) = SCT_ORDERTYPE_MARKET
   \<and> OrderQuantity (bridge_order market_buy) = 2
   \<and> trade_checks_pass (sc_bar 100 100 5 99 102) market_sell \<and> action market_sell = ''SELL''
   \<and> executeTrade host_ok (sc_bar 100 100 5 99 102) market_sell 0
        = (42, 100, [SellEntry (bridge_order market_sell)])
   \<and> trade_checks_pass (sc_bar 100 100 5 99 102) lower_buy \<and> action lower_buy = ''buy''
   \<and> executeTrade host_ok (sc_bar 100 100 5 99 102) lower_buy 0 = (0, 100, [])
   \<and> \<not> trade_checks_pass (sc_bar 100 100 5 99 102) (market_buy\<lparr>quantity := 0\<rparr>)
   \<and> snd (snd (executeTrade host_ok (sc_bar 100 100 5 99 102) (market_buy\<lparr>quantity := 0\<rparr>) 0)) = []
   \<and> order_type limit_buy = ''LIMIT'' \<and> 0 < cmd_price limit_buy
   \<and> Price1 (bridge_order limit_buy) = 95
   \<and> parseTradeCommand atof_zero cmd_bridge_market_buy = Inr (True, market_buy)
   \<and> trade_responses (fst (snd (processTradeCommands atof_zero host_ok True
        (sc_bar 100 100 5 99 102)
        (no_bridge_files\<lparr>trade_commands_file := Some cmd_bridge_market_buy\<rparr>))))
      = [\<lparr>r_command_id = ''c1'', r_status = ''FILLED'',
          r_message = ''Trade executed successfully'', r_fill_price = Some 101\<rparr>]
   \<and> parseTradeCommand atof_zero cmd_bridge_market_sell = Inr (True, market_sell)
   \<and> trade_responses (fst (snd (processTradeCommands atof_zero host_ok True
        (sc_bar 100 100 5 99 102)
        (no_bridge_files\<lparr>trade_commands_file := Some cmd_bridge_market_sell\<rparr>))))
      = [\<lparr>r_command_id = ''c2'', r_status = ''FILLED'',
          r_message = ''Trade executed successfully'', r_fill_price = Some 100\<rparr>]
   \<and> parseTradeCommand atof_zero cmd_bridge_lower_buy = Inr (True, lower_buy)
   \<and> trade_responses (fst (snd (processTradeCommands atof_zero host_ok True
        (sc_bar 100 100 5 99 102)
        (no_bridge_files\<lparr>trade_commands_file := Some cmd_bridge_lower_buy\<rparr>))))
      = [\<lparr>r_command_id = ''c3'', r_status = ''REJECTED'',
          r_message = ''Trade execution failed'', r_fill_price = None\<rparr>]
   \<and> (0::int) < 2 \<and> (0::real) < 95 \<and> CompareNoCase ''buy'' ''BUY'' = 0
   \<and> CompareNoCase ''limit'' ''LIMIT'' = 0
   \<and> (\<exists>ord. snd (ExecuteTrade_FIXED host_ok True 7 ''NQ'' ''buy'' 2 95 ''limit'' no_files)
                = [SubmitNewOrder ord]
          \<and> OrderQuantity ord = 2 \<and> BuySell ord = BSE_BUY
          \<and> OrderType ord = SCT_ORDERTYPE_LIMIT \<and> Price1 ord = 95)"
proof -
  have a: "action market_buy = ''BUY''" "quantity market_buy = 2" "command_id market_buy = ''c1''"
    "action market_sell = ''SELL''" "command_id market_sell = ''c2''"
    "action lower_buy = ''buy''" "command_id lower_buy = ''c3''"
    "order_type lower_buy = ''MARKET''"
    "order_type limit_buy = ''LIMIT''" "cmd_price limit_buy = 95"
    by (simp_all add: market_buy_def market_sell_def limit_buy_def lower_buy_def)
  have b: "Ask (sc_bar 100 100 5 99 102) = 101" "Bid (sc_bar 100 100 5 99 102) = 100"
    "order_result host_ok c = 42" for c
    by (simp_all add: sc_bar_def host_ok_def)
  have c: "CompareNoCase ''buy'' ''BUY'' = 0" "CompareNoCase ''limit'' ''LIMIT'' = 0"
    by (simp_all add: CompareNoCase_def toupper_def)
  have n: "\<not> trade_checks_pass (sc_bar 100 100 5 99 102) (market_buy\<lparr>quantity := 0\<rparr>)"
    by (simp add: trade_checks_pass_def)
  have m: "executeTrade host_ok (sc_bar 100 100 5 99 102) market_buy 0
             = (42, 101, [BuyEntry (bridge_order market_buy)])
           \<and> OrderType (bridge_order market_buy) = SCT_ORDERTYPE_MARKET
           \<and> OrderQuantity (bridge_order market_buy) = 2
           \<and> trade_responses (fst (snd (processTradeCommands atof_zero host_ok True
                (sc_bar 100 100 5 99 102)
                (no_bridge_files\<lparr>trade_commands_file := Some cmd_bridge_market_buy\<rparr>))))
              = [\<lparr>r_command_id = ''c1'', r_status = ''FILLED'',
                  r_message = ''Trade executed successfully'', r_fill_price = Some 101\<rparr>]
           \<and> (\<exists>ord. snd (ExecuteTrade_FIXED host_ok True 7 ''NQ'' ''buy'' 2 95 ''limit'' no_files)
                = [SubmitNewOrder ord]
              \<and> OrderQuantity ord = 2 \<and> BuySell ord = BSE_BUY
              \<and> OrderType ord = SCT_ORDERTYPE_LIMIT \<and> Price1 ord = 95)"
    using a b c files_demo checks_demo(1) bridge_market_buy_parse bridge_market_buy_facts
      C8_order_construction [of "sc_bar 100 100 5 99 102" market_buy host_ok 0
        "no_bridge_files\<lparr>trade_commands_file := Some cmd_bridge_market_buy\<rparr>"
        cmd_bridge_market_buy atof_zero
        2 95 "''limit''" "''buy''" True 7 "''NQ''" no_files]
    by simp
  have s: "executeTrade host_ok (sc_bar 100 100 5 99 102) market_sell 0
             = (42, 100, [SellEntry (bridge_order market_sell)])
           \<and> trade_responses (fst (snd (processTradeCommands atof_zero host_ok True
                (sc_bar 100 100 5 99 102)
                (no_bridge_files\<lparr>trade_commands_file := Some cmd_bridge_market_sell\<rparr>))))
              = [\<lparr>r_command_id = ''c2'', r_status = ''FILLED'',
                  r_message = ''Trade executed successfully'', r_fill_price = Some 100\<rparr>]"
    using a b files_demo checks_sell bridge_market_sell_parse bridge_text_facts
      C8_order_construction [of "sc_bar 100 100 5 99 102" market_sell host_ok 0
        "no_bridge_files\<lparr>trade_commands_file := Some cmd_bridge_market_sell\<rparr>"
        cmd_bridge_market_sell atof_zero]
    by simp
  have x: "executeTrade host_ok (sc_bar 100 100 5 99 102) lower_buy 0 = (0, 100, [])
           \<and> trade_responses (fst (snd (processTradeCommands atof_zero host_ok True
                (sc_bar 100 100 5 99 102)
                (no_bridge_files\<lparr>trade_commands_file := Some cmd_bridge_lower_buy\<rparr>))))
              = [\<lparr>r_command_id = ''c3'', r_status = ''REJECTED'',
                  r_message = ''Trade execution failed'', r_fill_price = None\<rparr>]"
    using a b files_demo checks_lower bridge_lower_buy_parse bridge_text_facts
      C8_order_construction [of "sc_bar 100 100 5 99 102" lower_buy host_ok 0
        "no_bridge_files\<lparr>trade_commands_file := Some cmd_bridge_lower_buy\<rparr>"
        cmd_bridge_lower_buy atof_zero]
    by simp
  have z: "snd (snd (executeTrade host_ok (sc_bar 100 100 5 99 102) (market_buy\<lparr>quantity := 0\<rparr>) 0)) = []"
    using n C8_order_construction [of "sc_bar 100 100 5 99 102" "market_buy\<lparr>quantity := 0\<rparr>" host_ok 0] by blast
  have l: "Price1 (bridge_order limit_buy) = 95"
    using a C8_order_construction [of _ limit_buy] by simp
  show ?thesis
    using m s x z n l a c checks_demo(1) checks_sell checks_lower bridge_market_buy_parse
      bridge_market_sell_parse bridge_lower_buy_parse
    by simp
qed

text \<open>
  The claim as stated fails in the Bridge for limit orders: the limit buy at 95 with the
  ask at 101 goes to the host as a market order, and the fill price is 101.
\<close>

theorem C8_limit_forced_to_market:
  "order_type limit_buy = ''LIMIT'' \<and> cmd_price limit_buy = 95
   \<and> executeTrade host_ok (sc_bar 100 100 5 99 102) limit_buy 0
        = (42, 101, [BuyEntry (bridge_order limit_buy)])
   \<and> OrderType (bridge_order limit_buy) = SCT_ORDERTYPE_MARKET"
proof -
  have a: "action limit_buy = ''BUY''" "order_type limit_buy = ''LIMIT''" "cmd_price limit_buy = 95"
    by (simp_all add: limit_buy_def)
  have b: "Ask (sc_bar 100 100 5 99 102) = 101" "order_result host_ok c = 42" for c
    by (simp_all add: sc_bar_def host_ok_def)
  show ?thesis
    using a b executeTrade_buy [OF checks_demo(2) a(1), of host_ok 0] bridge_order_fields(1) [of limit_buy]
    by simp
qed

section \<open>Parsing never throws\<close>

lemma find_sub_bound: "find_sub pat s = Some i \<Longrightarrow> i + length pat \<le> length s"
proof (induction s arbitrary: i)
  case Nil
  then show ?case by (simp split: if_splits)
next
  case (Cons c cs)
  show ?case
  proof (cases "take (length pat) (c # cs) = pat")
    case True
    have "length (take (length pat) (c # cs)) = min (length (c # cs)) (length pat)"
      by (rule length_take)
    then have "length pat \<le> length (c # cs)"
      unfolding True by simp
    with True Cons.prems show ?thesis by simp
  next
    case False
    with Cons.prems obtain j where "find_sub pat cs = Some j" "i = Suc j"
      by auto
    with Cons.IH [of j] show ?thesis by simp
  qed
qed

lemma find_bound: "find s pat pos = Some i \<Longrightarrow> pos \<le> i \<and> i + length pat \<le> length s"
  by (auto simp: find_def split: if_splits dest!: find_sub_bound)

lemma find_first_of_sub_bound: "find_first_of_sub chars s = Some i \<Longrightarrow> i < length s"
  by (induction s arbitrary: i) (auto split: if_splits)

lemma find_first_of_bound:
  "find_first_of s chars pos = Some i \<Longrightarrow> pos \<le> i \<and> i < length s"
  by (auto simp: find_first_of_def split: if_splits dest!: find_first_of_sub_bound)

lemma substr_in_range: "pos \<le> length s \<Longrightarrow> substr s pos n = Inr (take n (drop pos s))"
  by (simp add: substr_def)

lemma ExtractString_total: "\<exists>r. ExtractString json key = Inr r"
proof (cases "find json ([dq] @ key @ [dq] @ '':'' @ [dq]) 0")
  case None
  then show ?thesis by (simp add: ExtractString_def)
next
  case (Some pos)
  then have "pos + length ([dq] @ key @ [dq] @ '':'' @ [dq]) \<le> length json"
    using find_bound by blast
  then show ?thesis
    using Some by (simp add: ExtractString_def Let_def substr_in_range split: option.splits)
qed

lemma ExtractString_missing:
  "find json ([dq] @ key @ [dq] @ '':'' @ [dq]) 0 = None \<Longrightarrow> ExtractString json key = Inr ''''"
  by (simp add: ExtractString_def)

lemma ExtractString_unterminated:
  "find json ([dq] @ key @ [dq] @ '':'' @ [dq]) 0 = Some pos \<Longrightarrow>
   find json [dq] (pos + length ([dq] @ key @ [dq] @ '':'' @ [dq])) = None \<Longrightarrow>
   ExtractString json key = Inr ''''"
  by (simp add: ExtractString_def)

lemma ExtractInt_eq:
  "ExtractInt json key =
     Inr (case field_text json key of
            None \<Rightarrow> 0
          | Some txt \<Rightarrow> (case stoi txt of Inl e \<Rightarrow> 0 | Inr v \<Rightarrow> v))"
proof (cases "find json ([dq] @ key @ [dq] @ '':'') 0")
  case None
  then show ?thesis by (simp add: ExtractInt_def field_text_def)
next
  case (Some pos)
  then have "pos + length ([dq] @ key @ [dq] @ '':'') \<le> length json"
    using find_bound by blast
  then show ?thesis
    using Some
    by (simp add: ExtractInt_def field_text_def Let_def substr_in_range bind_exn_def catch_all_def
        split: option.splits sum.splits)
qed

lemma ExtractFloat_eq:
  "ExtractFloat stof json key =
     Inr (case field_text json key of
            None \<Rightarrow> 0
          | Some txt \<Rightarrow> (case stof txt of Inl e \<Rightarrow> 0 | Inr v \<Rightarrow> v))"
proof (cases "find json ([dq] @ key @ [dq] @ '':'') 0")
  case None
  then show ?thesis by (simp add: ExtractFloat_def field_text_def)
next
  case (Some pos)
  then have "pos + length ([dq] @ key @ [dq] @ '':'') \<le> length json"
    using find_bound by blast
  then show ?thesis
    using Some
    by (simp add: ExtractFloat_def field_text_def Let_def substr_in_range bind_exn_def catch_all_def
        split: option.splits sum.splits)
qed

lemma stoi_eq:
  "stoi txt = Inr v \<longleftrightarrow> int_prefix txt = Some v \<and> - 2147483648 \<le> v \<and> v \<le> 2147483647"
  by (auto simp: stoi_def split: option.splits)

lemma quoted_field_total: "\<exists>r. quoted_field s key d = Inr r"
proof (cases "find s key 0")
  case None
  then show ?thesis by (simp add: quoted_field_def)
next
  case (Some pos)
  show ?thesis
  proof (cases "find s [dq] (pos + length key)")
    case None
    with Some show ?thesis by (simp add: quoted_field_def)
  next
    case st: (Some st)
    then have "st + 1 \<le> length s" using find_bound [of s "[dq]" _ st] by simp
    then show ?thesis
      using Some st by (simp add: quoted_field_def substr_in_range split: option.splits)
  qed
qed

lemma quoted_field_missing: "find s key 0 = None \<Longrightarrow> quoted_field s key d = Inr d"
  by (simp add: quoted_field_def)

lemma parseTradeCommand_total: "\<exists>ok cmd. parseTradeCommand atof s = Inr (ok, cmd)"
proof -
  obtain a where a: "quoted_field s ([dq] @ ''command_id'' @ [dq] @ '':'') '''' = Inr a"
    using quoted_field_total by blast
  obtain b where b: "quoted_field s ([dq] @ ''action'' @ [dq] @ '':'') '''' = Inr b"
    using quoted_field_total by blast
  obtain c where c: "quoted_field s ([dq] @ ''symbol'' @ [dq] @ '':'') '''' = Inr c"
    using quoted_field_total by blast
  obtain d where d: "quoted_field s ([dq] @ ''order_type'' @ [dq] @ '':'') ''MARKET'' = Inr d"
    using quoted_field_total by blast
  show ?thesis
    using a b c d by (simp add: parseTradeCommand_def bind_exn_def Let_def)
qed

lemma parseTradeCommand_quantity:
  assumes "parseTradeCommand atof s = Inr (ok, cmd)"
  shows "quantity cmd = (case number_text s ([dq] @ ''quantity'' @ [dq] @ '':'') of
                            None \<Rightarrow> 0 | Some txt \<Rightarrow> atoi txt)
         \<and> (ok \<longrightarrow> 0 < quantity cmd)"
  using assms
  by (auto simp: parseTradeCommand_def bind_exn_def Let_def split: sum.splits)

lemma atoi_no_digits: "int_prefix txt = None \<Longrightarrow> atoi txt = 0"
  by (simp add: atoi_def)

lemma ProcessTradeCommands_FIXED_eq:
  assumes "command_file fs = Some content" "content \<noteq> []"
  shows "\<exists>smb sd ot qty prc.
           ExtractString content ''symbol'' = Inr smb \<and> ExtractString content ''side'' = Inr sd
           \<and> ExtractString content ''order_type'' = Inr ot
           \<and> ExtractInt content ''quantity'' = Inr qty
           \<and> ExtractFloat stof content ''price'' = Inr prc
           \<and> ProcessTradeCommands_FIXED stof host resp_ok now fs =
               (if smb \<noteq> [] \<and> sd \<noteq> [] \<and> qty > 0 then
                  Inr ((fst (ExecuteTrade_FIXED host resp_ok now smb sd qty prc ot
                          (fs\<lparr>contents_read := contents_read fs @ [content]\<rparr>)))\<lparr>command_file := None\<rparr>,
                       snd (ExecuteTrade_FIXED host resp_ok now smb sd qty prc ot
                          (fs\<lparr>contents_read := contents_read fs @ [content]\<rparr>)))
                else Inr (fs\<lparr>contents_read := contents_read fs @ [content]\<rparr>, []))"
proof -
  obtain a where a: "ExtractString content ''symbol'' = Inr a"
    using ExtractString_total by blast
  obtain b where b: "ExtractString content ''side'' = Inr b"
    using ExtractString_total by blast
  obtain c where c: "ExtractString content ''order_type'' = Inr c"
    using ExtractString_total by blast
  obtain q where q: "ExtractInt content ''quantity'' = Inr q"
    using ExtractInt_eq by blast
  obtain p where p: "ExtractFloat stof content ''price'' = Inr p"
    using ExtractFloat_eq by blast
  show ?thesis
    using assms a b c q p by (simp add: ProcessTradeCommands_FIXED_def bind_exn_def Let_def)
qed

lemma ProcessTradeCommands_FIXED_total:
  "\<exists>r. ProcessTradeCommands_FIXED stof host resp_ok now fs = Inr r"
proof (cases "command_file fs")
  case None
  then show ?thesis by (simp add: ProcessTradeCommands_FIXED_def)
next
  case (Some content)
  show ?thesis
  proof (cases "content = []")
    case True
    with Some show ?thesis by (simp add: ProcessTradeCommands_FIXED_def Let_def)
  next
    case False
    from ProcessTradeCommands_FIXED_eq [OF Some False, of stof host resp_ok now]
    show ?thesis by (auto split: if_splits)
  qed
qed

lemma ProcessTradeCommands_FIXED_quantity_zero:
  assumes "command_file fs = Some content" "content \<noteq> []"
    and "ExtractInt content ''quantity'' = Inr 0"
  shows "ProcessTradeCommands_FIXED stof host resp_ok now fs =
           Inr (fs\<lparr>contents_read := contents_read fs @ [content]\<rparr>, [])"
  using ProcessTradeCommands_FIXED_eq [OF assms(1,2), of stof host resp_ok now] assms(3)
  by auto

lemma processTradeCommands_invalid:
  assumes "trade_commands_file fs = Some ftext" "filter (\<lambda>c. c \<noteq> CHR 0x0A) ftext = content"
    and "content \<noteq> []" "parseTradeCommand atof content = Inr (False, cmd)"
  shows "processTradeCommands atof host resp_ok sc fs =
           (True,
            write_response resp_ok
              (createTradeResponse ''unknown'' ''REJECTED'' ''Invalid command format'' 0)
              (fs\<lparr>commands_read := commands_read fs @ [content], trade_commands_file := None\<rparr>),
            [])"
  using assms by (simp add: processTradeCommands_def Let_def)

lemma bridge_quantity_no_digits:
  assumes "trade_commands_file bfs = Some ftext" "filter (\<lambda>c. c \<noteq> CHR 0x0A) ftext = json"
    and "json \<noteq> []"
    and "number_text json ([dq] @ ''quantity'' @ [dq] @ '':'') = Some txt" "int_prefix txt = None"
  shows "processTradeCommands atof host resp_ok sc bfs =
           (True,
            write_response resp_ok
              (createTradeResponse ''unknown'' ''REJECTED'' ''Invalid command format'' 0)
              (bfs\<lparr>commands_read := commands_read bfs @ [json], trade_commands_file := None\<rparr>),
            [])"
proof -
  obtain ok cmd where p: "parseTradeCommand atof json = Inr (ok, cmd)"
    using parseTradeCommand_total by blast
  from parseTradeCommand_quantity [OF p] assms(4,5)
  have "\<not> ok"
    by (auto simp: atoi_no_digits)
  with p have "parseTradeCommand atof json = Inr (False, cmd)" by simp
  then show ?thesis
    by (rule processTradeCommands_invalid [OF assms(1,2,3)])
qed

text \<open>
  C10 (amended). For every input string the extraction functions of the JSON helper and
  the Bridge's \<^verbatim>\<open>parseTradeCommand\<close> return a value and never propagate an exception, and
  so does \<^verbatim>\<open>ProcessTradeCommands\<close> of FIXED, which calls them unguarded. A string field
  whose key is missing yields the empty string (in the Bridge: the value the field had
  before, which is MARKET for the order type). A numeric field of the JSON helper yields 0
  when its key or the comma or brace after it is missing, when its text has no leading
  integer after optional white space and sign, or when that integer is outside the range
  of a 32-bit \<^verbatim>\<open>int\<close>; a text that starts with an integer in range yields that integer
  whatever follows it. A command whose quantity yields 0 is not executed: FIXED leaves it
  where it is, and the Bridge, for a quantity text without a leading integer, removes it
  and answers with a rejection under the identifier unknown.
\<close>

theorem C10_parsing_total:
  "(\<exists>r. ExtractString json key = Inr r)
   \<and> (find json ([dq] @ key @ [dq] @ '':'' @ [dq]) 0 = None \<longrightarrow> ExtractString json key = Inr '''')
   \<and> ExtractInt json key =
        Inr (case field_text json key of
               None \<Rightarrow> 0
             | Some txt \<Rightarrow> (case stoi txt of Inl e \<Rightarrow> 0 | Inr v \<Rightarrow> v))
   \<and> ExtractFloat stof json key =
        Inr (case field_text json key of
               None \<Rightarrow> 0
             | Some txt \<Rightarrow> (case stof txt of Inl e \<Rightarrow> 0 | Inr v \<Rightarrow> v))
   \<and> (stoi txt = Inr v \<longleftrightarrow> int_prefix txt = Some v \<and> - 2147483648 \<le> v \<and> v \<le> 2147483647)
   \<and> (\<exists>ok cmd. parseTradeCommand atof json = Inr (ok, cmd))
   \<and> (find json key 0 = None \<longrightarrow> quoted_field json key dflt = Inr dflt)
   \<and> (\<exists>r. ProcessTradeCommands_FIXED stof host resp_ok now fs = Inr r)
   \<and> (command_file fs = Some json \<and> json \<noteq> [] \<and> ExtractInt json ''quantity'' = Inr 0 \<longrightarrow>
        ProcessTradeCommands_FIXED stof host resp_ok now fs =
          Inr (fs\<lparr>contents_read := contents_read fs @ [json]\<rparr>, []))
   \<and> (trade_commands_file bfs = Some ftext \<and> filter (\<lambda>c. c \<noteq> CHR 0x0A) ftext = json
        \<and> json \<noteq> [] \<and> number_text json ([dq] @ ''quantity'' @ [dq] @ '':'') = Some qtxt
        \<and> int_prefix qtxt = None \<longrightarrow>
        processTradeCommands atof host resp_ok sc bfs =
          (True,
           write_response resp_ok
             (createTradeResponse ''unknown'' ''REJECTED'' ''Invalid command format'' 0)
             (bfs\<lparr>commands_read := commands_read bfs @ [json], trade_commands_file := None\<rparr>),
           []))"
  using ExtractString_total [of json "key"] ExtractString_missing [of json "key"]
    ExtractInt_eq [of json "key"] ExtractFloat_eq [of stof json "key"] stoi_eq [of "txt" v]
    parseTradeCommand_total [of atof json] quoted_field_missing [of json "key" dflt]
    ProcessTradeCommands_FIXED_total [of stof host resp_ok now fs]
    ProcessTradeCommands_FIXED_quantity_zero [of fs json stof host resp_ok now]
    bridge_quantity_no_digits [of bfs ftext json qtxt atof host resp_ok sc]
  by blast

lemma text_quantity_facts:
  "field_text cmd_text_quantity ''quantity'' = Some ''seven''"
  "stoi ''seven'' = Inl invalid_argument"
  "cmd_text_quantity \<noteq> []"
  "find cmd_text_quantity ([dq] @ ''command_id'' @ [dq] @ '':'' @ [dq]) 0 = None"
  by (simp_all add: cmd_text_quantity_def parse_defs)

lemma bridge_text_quantity_facts:
  "filter (\<lambda>c. c \<noteq> CHR 0x0A) cmd_bridge_text_quantity = cmd_bridge_text_quantity"
  "cmd_bridge_text_quantity \<noteq> []"
  "number_text cmd_bridge_text_quantity ([dq] @ ''quantity'' @ [dq] @ '':'') = Some ''seven}''"
  "int_prefix ''seven}'' = None"
  by (simp_all add: cmd_bridge_text_quantity_def parse_defs)

lemma bridge_no_order_type:
  "find cmd_bridge_text_quantity ([dq] @ ''order_type'' @ [dq] @ '':'') 0 = None"
  by (simp add: cmd_bridge_text_quantity_def parse_defs)

theorem C10_parsing_total_witness:
  "find cmd_text_quantity ([dq] @ ''command_id'' @ [dq] @ '':'' @ [dq]) 0 = None
   \<and> ExtractString cmd_text_quantity ''command_id'' = Inr ''''
   \<and> field_text cmd_text_quantity ''quantity'' = Some ''seven''
   \<and> stoi ''seven'' = Inl invalid_argument
   \<and> ExtractInt cmd_text_quantity ''quantity'' = Inr 0
   \<and> command_file (no_files\<lparr>command_file := Some cmd_text_quantity\<rparr>) = Some cmd_text_quantity
   \<and> cmd_text_quantity \<noteq> []
   \<and> ProcessTradeCommands_FIXED stof_zero host_ok True 7
        (no_files\<lparr>command_file := Some cmd_text_quantity\<rparr>)
      = Inr (no_files\<lparr>command_file := Some cmd_text_quantity,
                      contents_read := [cmd_text_quantity]\<rparr>, [])
   \<and> find cmd_bridge_text_quantity ([dq] @ ''order_type'' @ [dq] @ '':'') 0 = None
   \<and> quoted_field cmd_bridge_text_quantity ([dq] @ ''order_type'' @ [dq] @ '':'') ''MARKET''
      = Inr ''MARKET''
   \<and> number_text cmd_bridge_text_quantity ([dq] @ ''quantity'' @ [dq] @ '':'') = Some ''seven}''
   \<and> int_prefix ''seven}'' = None
   \<and> processTradeCommands atof_zero host_ok True (sc_bar 100 100 5 99 102)
        (no_bridge_files\<lparr>trade_commands_file := Some cmd_bridge_text_quantity\<rparr>)
      = (True,
         \<lparr>trade_commands_file = None,
          trade_responses = [\<lparr>r_command_id = ''unknown'', r_status = ''REJECTED'',
                               r_message = ''Invalid command format'', r_fill_price = None\<rparr>],
          commands_read = [cmd_bridge_text_quantity]\<rparr>,
         [])"
proof -
  have q: "ExtractInt cmd_text_quantity ''quantity'' = Inr 0"
    using C10_parsing_total [of cmd_text_quantity "''quantity''"]
    by (simp add: text_quantity_facts)
  have s: "ExtractString cmd_text_quantity ''command_id'' = Inr ''''"
    using C10_parsing_total [of cmd_text_quantity "''command_id''"] text_quantity_facts(4)
    by blast
  have f: "ProcessTradeCommands_FIXED stof_zero host_ok True 7
        (no_files\<lparr>command_file := Some cmd_text_quantity\<rparr>)
      = Inr (no_files\<lparr>command_file := Some cmd_text_quantity,
                      contents_read := [cmd_text_quantity]\<rparr>, [])"
    using C10_parsing_total [of cmd_text_quantity _ stof_zero _ _ _ _ host_ok True 7
        "no_files\<lparr>command_file := Some cmd_text_quantity\<rparr>"] q text_quantity_facts(3)
    by (simp add: no_files_def)
  have d: "quoted_field cmd_bridge_text_quantity ([dq] @ ''order_type'' @ [dq] @ '':'') ''MARKET''
      = Inr ''MARKET''"
    using C10_parsing_total [of cmd_bridge_text_quantity "[dq] @ ''order_type'' @ [dq] @ '':''"
        _ _ _ _ "''MARKET''"] bridge_no_order_type
    by blast
  have b: "processTradeCommands atof_zero host_ok True (sc_bar 100 100 5 99 102)
        (no_bridge_files\<lparr>trade_commands_file := Some cmd_bridge_text_quantity\<rparr>)
      = (True,
         \<lparr>trade_commands_file = None,
          trade_responses = [\<lparr>r_command_id = ''unknown'', r_status = ''REJECTED'',
                               r_message = ''Invalid command format'', r_fill_price = None\<rparr>],
          commands_read = [cmd_bridge_text_quantity]\<rparr>,
         [])"
    using C10_parsing_total [of cmd_bridge_text_quantity _ _ _ _ atof_zero _ host_ok True _ _
        "no_bridge_files\<lparr>trade_commands_file := Some cmd_bridge_text_quantity\<rparr>"
        cmd_bridge_text_quantity "''seven}''" "sc_bar 100 100 5 99 102"]
      bridge_text_quantity_facts
    by (simp add: no_bridge_files_def write_response_def createTradeResponse_def)
  show ?thesis
    using q s f b d bridge_no_order_type text_quantity_facts bridge_text_quantity_facts
    by (simp add: no_files_def)
qed

text \<open>
  The claim as stated fails for a quantity such as \<open>7x\<close>: the field is not a number, the
  conversion takes its leading digits, and FIXED submits an order of 7.
\<close>

theorem C10_junk_quantity_executed:
  "field_text cmd_junk_quantity ''quantity'' = Some ''7x''
   \<and> ExtractInt cmd_junk_quantity ''quantity'' = Inr 7
   \<and> (case ProcessTradeCommands_FIXED stof_zero host_ok True 7
               (no_files\<lparr>command_file := Some cmd_junk_quantity\<rparr>) of
         Inl e \<Rightarrow> []
       | Inr r \<Rightarrow> map (\<lambda>c. OrderQuantity (order_of c)) (snd r)) = [7]"
  by (simp add: cmd_junk_quantity_def parse_defs ProcessTradeCommands_FIXED_def
      ExecuteTrade_FIXED_def no_files_def stof_zero_def host_ok_def CompareNoCase_def toupper_def
      WriteTradeResponse_def order_of_def new_order_def)

section \<open>At-most-once consumption and the response to a command\<close>

lemma processTradeCommands_removes:
  assumes "trade_commands_file fs = Some ftext" "filter (\<lambda>c. c \<noteq> CHR 0x0A) ftext \<noteq> []"
  shows "trade_commands_file (fst (snd (processTradeCommands atof host resp_ok sc fs))) = None"
proof -
  obtain ok cmd where p: "parseTradeCommand atof (filter (\<lambda>c. c \<noteq> CHR 0x0A) ftext) = Inr (ok, cmd)"
    using parseTradeCommand_total by blast
  show ?thesis
    using assms p by (simp add: processTradeCommands_def Let_def write_response_def)
qed

lemma processTradeCommands_absent:
  assumes "trade_commands_file fs = None"
  shows "processTradeCommands atof host resp_ok sc fs = (False, fs, [])"
  using assms by (simp add: processTradeCommands_def)

lemma processTradeCommands_once:
  assumes "trade_commands_file fs = Some ftext" "filter (\<lambda>c. c \<noteq> CHR 0x0A) ftext \<noteq> []"
  shows "processTradeCommands atof host resp_ok sc
           (fst (snd (processTradeCommands atof host resp_ok sc fs)))
         = (False, fst (snd (processTradeCommands atof host resp_ok sc fs)), [])"
  by (rule processTradeCommands_absent) (rule processTradeCommands_removes [OF assms])

lemma processTradeCommands_one_response:
  assumes "trade_commands_file fs = Some ftext" "filter (\<lambda>c. c \<noteq> CHR 0x0A) ftext \<noteq> []"
    and p: "parseTradeCommand atof (filter (\<lambda>c. c \<noteq> CHR 0x0A) ftext) = Inr (ok, cmd)"
  shows "\<exists>r. trade_responses (fst (snd (processTradeCommands atof host True sc fs)))
               = trade_responses fs @ [r]
           \<and> r_command_id r = (if ok then command_id cmd else ''unknown'')
           \<and> (r_status r = ''FILLED'' \<or> r_status r = ''REJECTED'')
           \<and> (\<not> ok \<longrightarrow> r_status r = ''REJECTED''
                \<and> snd (snd (processTradeCommands atof host True sc fs)) = [])"
  using assms
  by (cases ok) (simp_all add: processTradeCommands_def Let_def write_response_def
      createTradeResponse_def)

text \<open>
  FIXED answers a command that passes its checks with one response and then deletes the
  file; a command that fails them is neither answered nor deleted.
\<close>

lemma ExecuteTrade_FIXED_one_response:
  "\<exists>r. response_files (fst (ExecuteTrade_FIXED host True now smb sd qty prc orderType fs))
           = response_files fs @ [r]
       \<and> o_order_id r = ''MINH_'' @ dec (unat now)
       \<and> command_file (fst (ExecuteTrade_FIXED host True now smb sd qty prc orderType fs))
           = command_file fs"
  by (simp add: ExecuteTrade_FIXED_def WriteTradeResponse_def Let_def)

lemma ProcessTradeCommands_FIXED_valid:
  assumes "command_file fs = Some content" "content \<noteq> []"
    and "ExtractString content ''symbol'' = Inr smb" "smb \<noteq> []"
    and "ExtractString content ''side'' = Inr sd" "sd \<noteq> []"
    and "ExtractInt content ''quantity'' = Inr qty" "0 < qty"
  shows "\<exists>fs' calls r. ProcessTradeCommands_FIXED stof host True now fs = Inr (fs', calls)
           \<and> command_file fs' = None
           \<and> response_files fs' = response_files fs @ [r]
           \<and> o_order_id r = ''MINH_'' @ dec (unat now)"
proof -
  from ProcessTradeCommands_FIXED_eq [OF assms(1,2), of stof host True now]
  obtain ot prc where
    "ProcessTradeCommands_FIXED stof host True now fs =
       Inr ((fst (ExecuteTrade_FIXED host True now smb sd qty prc ot
               (fs\<lparr>contents_read := contents_read fs @ [content]\<rparr>)))\<lparr>command_file := None\<rparr>,
            snd (ExecuteTrade_FIXED host True now smb sd qty prc ot
               (fs\<lparr>contents_read := contents_read fs @ [content]\<rparr>)))"
    using assms(3-8) by auto
  moreover obtain r where
    "response_files (fst (ExecuteTrade_FIXED host True now smb sd qty prc ot
        (fs\<lparr>contents_read := contents_read fs @ [content]\<rparr>))) = response_files fs @ [r]"
    "o_order_id r = ''MINH_'' @ dec (unat now)"
    using ExecuteTrade_FIXED_one_response
      [of host now smb sd qty prc ot "fs\<lparr>contents_read := contents_read fs @ [content]\<rparr>"]
    by auto
  ultimately show ?thesis by simp
qed

lemma ProcessTradeCommands_FIXED_invalid:
  assumes "command_file fs = Some content" "content \<noteq> []"
    and "ExtractString content ''symbol'' = Inr [] \<or> ExtractString content ''side'' = Inr []
         \<or> (\<exists>q. ExtractInt content ''quantity'' = Inr q \<and> q \<le> 0)"
  shows "ProcessTradeCommands_FIXED stof host resp_ok now fs =
           Inr (fs\<lparr>contents_read := contents_read fs @ [content]\<rparr>, [])"
  using ProcessTradeCommands_FIXED_eq [OF assms(1,2), of stof host resp_ok now] assms(3)
  by auto

text \<open>
  C1: the command file is removed as soon as it has been read, before the command is
  parsed or executed, so that no later poll reads the same content. The Bridge does so
  (\<open>processTradeCommands_removes\<close>, \<open>processTradeCommands_once\<close>). FIXED deletes the file
  only after it has executed the command: at the failing input it finds a command with
  the quantity 0, reads it and leaves the file where it is, and the next poll reads the
  same content again.
\<close>

theorem C1_FIXED_rereads_command:
  "ProcessTradeCommands_FIXED stof_zero host_ok True 7 files_zero_quantity
     = Inr (files_zero_quantity\<lparr>contents_read := [cmd_zero_quantity]\<rparr>, [])
   \<and> ProcessTradeCommands_FIXED stof_zero host_ok True 8
       (files_zero_quantity\<lparr>contents_read := [cmd_zero_quantity]\<rparr>)
     = Inr (files_zero_quantity\<lparr>contents_read := [cmd_zero_quantity, cmd_zero_quantity]\<rparr>, [])
   \<and> command_file (files_zero_quantity\<lparr>contents_read := [cmd_zero_quantity, cmd_zero_quantity]\<rparr>)
     = Some cmd_zero_quantity"
  by (simp add: files_zero_quantity_def no_files_def cmd_zero_quantity_def parse_defs
      ProcessTradeCommands_FIXED_def stof_zero_def)

text \<open>
  C2: every command that is read ends with exactly one response, a rejection when the
  command is invalid. The Bridge writes one in every branch
  (\<open>processTradeCommands_one_response\<close>). At the failing input FIXED reads the command
  with the quantity 0 and writes no response at all; no order is submitted.
\<close>

theorem C2_FIXED_no_response:
  "(case ProcessTradeCommands_FIXED stof_zero host_ok True 7 files_zero_quantity of
      Inl e \<Rightarrow> None
    | Inr r \<Rightarrow> Some (contents_read (fst r), response_files (fst r), snd r))
   = Some ([cmd_zero_quantity], [], [])"
  by (simp add: files_zero_quantity_def no_files_def cmd_zero_quantity_def parse_defs
      ProcessTradeCommands_FIXED_def stof_zero_def)

end
